theory Spec2Isabelle
  imports Complex_Main "HOL-Library.Word" "HOL-Library.Char_ord" "HOL-Library.List_Lexorder"
begin

section \<open>Data model\<close>

text \<open>
  The matching core of the Bondra backend keeps its cluster state in Redis. The store is
  modelled by key family: one sorted set per queue key, the string keys holding the
  sidecar user data, the session records and the reverse pointers. Store calls are taken
  to succeed (no transport exception) and key expiry is not modelled; every
  \<^verbatim>\<open>Date.now()\<close> reading is an explicit argument of the operation that makes it.
\<close>

datatype SessionType = VIDEO | AUDIO | TEXT

datatype SessionStatus = ACTIVE | ENDED | ABANDONED

record IQueueUser =
  userId :: string
  socketId :: string
  joinedAt :: nat

record IActiveSession =
  session_id :: string
  sessionType :: SessionType
  user1Id :: string
  user2Id :: string
  startedAt :: nat

text \<open>The calls made to the metrics sink, in the order they are made.\<close>

datatype metric =
    UpdateQueueSize SessionType nat
  | TrackQueueJoin SessionType
  | TrackQueueWaitTime SessionType real
  | TrackQueueLeave SessionType string
  | TrackSessionStart SessionType
  | TrackSessionEnd SessionType string real
  | TrackError string string
  | TrackWsDisconnection string
  | MessagesSentInc string

text \<open>The message published on the \<^verbatim>\<open>match:found\<close> channel: session, the two users, modality.\<close>

datatype pubmsg = MatchFound string string string SessionType

subsection \<open>Sorted sets\<close>

text \<open>
  A Redis sorted set is a list of (member, score) pairs kept in the order Redis ranks
  them: by score, then by member in byte order. A member occurs at most once.
\<close>

type_synonym zset = "(string \<times> nat) list"

definition zbefore :: "string \<times> nat \<Rightarrow> string \<times> nat \<Rightarrow> bool" where
  "zbefore e e' = (snd e < snd e' \<or> (snd e = snd e' \<and> fst e < fst e'))"

fun zinsert :: "string \<times> nat \<Rightarrow> zset \<Rightarrow> zset" where
  "zinsert e [] = [e]"
| "zinsert e (e' # q) = (if zbefore e e' then e # e' # q else e' # zinsert e q)"

definition zscore :: "zset \<Rightarrow> string \<Rightarrow> nat option" where
  "zscore q m = map_of q m"

definition zadd :: "zset \<Rightarrow> nat \<Rightarrow> string \<Rightarrow> zset" where
  "zadd q s m = zinsert (m, s) (filter (\<lambda>e. fst e \<noteq> m) q)"

text \<open>\<^verbatim>\<open>ZREM\<close> answers with the number of members it removed.\<close>

definition zrem :: "zset \<Rightarrow> string list \<Rightarrow> nat \<times> zset" where
  "zrem q ms = (length (filter (\<lambda>e. fst e \<in> set ms) q), filter (\<lambda>e. fst e \<notin> set ms) q)"

text \<open>\<^verbatim>\<open>ZRANGE key start stop\<close> for non-negative indexes, both ends included.\<close>

definition zrange :: "zset \<Rightarrow> nat \<Rightarrow> nat \<Rightarrow> string list" where
  "zrange q start stop = map fst (take (Suc stop - start) (drop start q))"

definition zcard :: "zset \<Rightarrow> nat" where
  "zcard q = length q"

fun zrank :: "zset \<Rightarrow> string \<Rightarrow> nat option" where
  "zrank [] m = None"
| "zrank (e # q) m = (if fst e = m then Some 0 else map_option Suc (zrank q m))"

definition zset_ok :: "zset \<Rightarrow> bool" where
  "zset_ok q = (distinct (map fst q) \<and> sorted_wrt zbefore q)"

subsection \<open>The store\<close>

text \<open>
  \<open>queue t\<close> is the sorted set under the queue key of modality \<open>t\<close>. \<open>userdata (p, u)\<close> is
  the string key built from the queue prefix of modality \<open>p\<close>, the infix \<^verbatim>\<open>:user:\<close> and the
  user id \<open>u\<close>. \<open>session s\<close> is the record under the session key of \<open>s\<close>, and
  \<open>session_user u\<close> the reverse pointer of user \<open>u\<close>.
\<close>

record store =
  queue :: "SessionType \<Rightarrow> zset"
  userdata :: "SessionType \<times> string \<rightharpoonup> IQueueUser"
  session :: "string \<rightharpoonup> IActiveSession"
  session_user :: "string \<rightharpoonup> string"
  presence :: "string \<rightharpoonup> string"
  published :: "pubmsg list"
  metrics :: "metric list"

definition empty_store :: store where
  "empty_store = \<lparr> queue = (\<lambda>t. []), userdata = Map.empty, session = Map.empty,
     session_user = Map.empty, presence = Map.empty, published = [], metrics = [] \<rparr>"

section \<open>QueueManager\<close>

text \<open>
  \<^verbatim>\<open>getQueueKey\<close> maps each modality to its own key; its default branch is not reachable
  for a value of the enumeration.
\<close>

definition getQueueSize :: "SessionType \<Rightarrow> store \<Rightarrow> nat" where
  "getQueueSize queueType st = zcard (queue st queueType)"

definition getUserData :: "string \<Rightarrow> store \<Rightarrow> IQueueUser option" where
  "getUserData uid st = userdata st (VIDEO, uid)"

definition addToQueue ::
  "string \<Rightarrow> string \<Rightarrow> SessionType \<Rightarrow> nat \<Rightarrow> store \<Rightarrow> bool \<times> store" where
  "addToQueue uid sock queueType now st =
     (case zscore (queue st queueType) uid of
        Some existingScore \<Rightarrow> (False, st)
      | None \<Rightarrow>
          (let userData = \<lparr> userId = uid, socketId = sock, joinedAt = now \<rparr>;
               st1 = st\<lparr> userdata := (userdata st)((VIDEO, uid) \<mapsto> userData) \<rparr>;
               st2 = st1\<lparr> queue := (queue st1)(queueType := zadd (queue st1 queueType) now uid) \<rparr>;
               queueSize = getQueueSize queueType st2
           in (True, st2\<lparr> metrics := metrics st2 @
                 [UpdateQueueSize queueType queueSize, TrackQueueJoin queueType] \<rparr>)))"

definition removeFromQueue :: "string \<Rightarrow> SessionType \<Rightarrow> nat \<Rightarrow> store \<Rightarrow> bool \<times> store" where
  "removeFromQueue uid queueType now st =
     (let st1 = (case getUserData uid st of
                   Some userData \<Rightarrow>
                     st\<lparr> metrics := metrics st @
                       [TrackQueueWaitTime queueType ((real now - real (joinedAt userData)) / 1000)] \<rparr>
                 | None \<Rightarrow> st);
          (removed, q') = zrem (queue st1 queueType) [uid];
          st2 = st1\<lparr> queue := (queue st1)(queueType := q') \<rparr>;
          st3 = st2\<lparr> userdata := (userdata st2)((VIDEO, uid) := None) \<rparr>;
          queueSize = getQueueSize queueType st3;
          st4 = st3\<lparr> metrics := metrics st3 @ [UpdateQueueSize queueType queueSize] \<rparr>
      in (removed > 0, st4))"

text \<open>
  \<open>lock\<close> says whether \<^verbatim>\<open>RedisService.acquireLock\<close> handed out the matching lock of the
  modality; \<open>now\<close> is the clock reading of the re-insertion.
\<close>

definition findMatch ::
  "string \<Rightarrow> SessionType \<Rightarrow> bool \<Rightarrow> nat \<Rightarrow> store \<Rightarrow> IQueueUser option \<times> store" where
  "findMatch uid queueType lock now st =
     (if \<not> lock then (None, st)
      else
        (let users = zrange (queue st queueType) 0 1 in
         if length users < 2 then (None, st)
         else if uid \<notin> set users then (None, st)
         else
           (let partnerId = (if users ! 0 = uid then users ! 1 else users ! 0);
                (n, q') = zrem (queue st queueType) [users ! 0, users ! 1];
                st1 = st\<lparr> queue := (queue st)(queueType := q') \<rparr>
            in case getUserData partnerId st1 of
                 None \<Rightarrow> (None, snd (addToQueue uid [] queueType now st1))
               | Some partnerData \<Rightarrow>
                   (let queueSize = getQueueSize queueType st1
                    in (Some partnerData,
                        st1\<lparr> metrics := metrics st1 @
                          [UpdateQueueSize queueType queueSize,
                           TrackQueueLeave queueType ''matched''] \<rparr>)))))"

definition getQueuePosition :: "string \<Rightarrow> SessionType \<Rightarrow> store \<Rightarrow> nat" where
  "getQueuePosition uid queueType st =
     (case zrank (queue st queueType) uid of Some rank \<Rightarrow> rank + 1 | None \<Rightarrow> 0)"

fun isUserInQueue_loop :: "string \<Rightarrow> SessionType list \<Rightarrow> store \<Rightarrow> SessionType option" where
  "isUserInQueue_loop uid [] st = None"
| "isUserInQueue_loop uid (t # ts) st =
     (case zscore (queue st t) uid of
        Some score \<Rightarrow> Some t
      | None \<Rightarrow> isUserInQueue_loop uid ts st)"

text \<open>The answer \<open>None\<close> is \<^verbatim>\<open>{ inQueue: false }\<close>, \<open>Some t\<close> is \<^verbatim>\<open>{ inQueue: true, queueType: t }\<close>.\<close>

definition isUserInQueue :: "string \<Rightarrow> store \<Rightarrow> SessionType option" where
  "isUserInQueue uid st = isUserInQueue_loop uid [VIDEO, AUDIO, TEXT] st"

text \<open>
  One run of \<^verbatim>\<open>removeFromQueue\<close> in two parts: up to the answer to its sidecar read, with
  the wait-time metric that follows it, and from the removal on.
\<close>

definition removeFromQueue_read :: "string \<Rightarrow> SessionType \<Rightarrow> nat \<Rightarrow> store \<Rightarrow> store" where
  "removeFromQueue_read uid queueType now st =
     (case getUserData uid st of
        Some userData \<Rightarrow>
          st\<lparr> metrics := metrics st @
            [TrackQueueWaitTime queueType ((real now - real (joinedAt userData)) / 1000)] \<rparr>
      | None \<Rightarrow> st)"

definition removeFromQueue_write :: "string \<Rightarrow> SessionType \<Rightarrow> store \<Rightarrow> bool \<times> store" where
  "removeFromQueue_write uid queueType st1 =
     (let (removed, q') = zrem (queue st1 queueType) [uid];
          st2 = st1\<lparr> queue := (queue st1)(queueType := q') \<rparr>;
          st3 = st2\<lparr> userdata := (userdata st2)((VIDEO, uid) := None) \<rparr>;
          queueSize = getQueueSize queueType st3;
          st4 = st3\<lparr> metrics := metrics st3 @ [UpdateQueueSize queueType queueSize] \<rparr>
      in (removed > 0, st4))"

text \<open>
  \<^verbatim>\<open>removeFromAllQueues\<close> starts the three runs together under \<^verbatim>\<open>Promise.all\<close>. Each run
  issues its sidecar read at once, and the store answers in the order of issue: all three
  reads are answered, and all three wait-time metrics recorded, before the first removal
  is issued. From there the runs go on in step; their commands touch their own queue key,
  or delete the one sidecar key, so taking the runs in turn gives the same store and the
  same size metrics in the same order. One clock reading serves the three runs.
\<close>

definition removeFromAllQueues :: "string \<Rightarrow> nat \<Rightarrow> store \<Rightarrow> store" where
  "removeFromAllQueues uid now st =
     (let r1 = removeFromQueue_read uid VIDEO now st;
          r2 = removeFromQueue_read uid AUDIO now r1;
          r3 = removeFromQueue_read uid TEXT now r2;
          w1 = snd (removeFromQueue_write uid VIDEO r3);
          w2 = snd (removeFromQueue_write uid AUDIO w1)
      in snd (removeFromQueue_write uid TEXT w2))"

section \<open>SessionManager\<close>

text \<open>
  The session rows of the database (\<^verbatim>\<open>models/Session\<close>) are not part of the modelled
  store. What \<^verbatim>\<open>Session.create\<close> answers is the argument \<open>created\<close> (the id of the new
  row, \<open>None\<close> when no row was made); what \<^verbatim>\<open>Session.endSession\<close> answers is the argument
  \<open>updated\<close>. A session id read from a reverse pointer counts as missing when it is the
  empty string, as the source's truthiness test has it.
\<close>

definition getActiveSession :: "string \<Rightarrow> store \<Rightarrow> IActiveSession option \<times> store" where
  "getActiveSession uid st =
     (case session_user st uid of
        None \<Rightarrow> (None, st)
      | Some sessionId \<Rightarrow>
          if sessionId = [] then (None, st)
          else (case session st sessionId of
                  None \<Rightarrow> (None, st\<lparr> session_user := (session_user st)(uid := None) \<rparr>)
                | Some sessionData \<Rightarrow> (Some sessionData, st)))"

definition getSessionById :: "string \<Rightarrow> store \<Rightarrow> IActiveSession option" where
  "getSessionById sid st = session st sid"

definition createSession ::
  "SessionType \<Rightarrow> string \<Rightarrow> string \<Rightarrow> string option \<Rightarrow> nat \<Rightarrow> store \<Rightarrow> string option \<times> store" where
  "createSession t u1 u2 created now st =
     (let (user1Session, st1) = getActiveSession u1 st;
          (user2Session, st2) = getActiveSession u2 st1
      in if user1Session \<noteq> None \<or> user2Session \<noteq> None then (None, st2)
         else
           (case created of
              None \<Rightarrow> (None, st2)
            | Some sid \<Rightarrow>
                (let sessionData = \<lparr> session_id = sid, sessionType = t, user1Id = u1,
                                     user2Id = u2, startedAt = now \<rparr>;
                     st3 = st2\<lparr> session := (session st2)(sid \<mapsto> sessionData) \<rparr>;
                     st4 = st3\<lparr> session_user := (session_user st3)(u1 \<mapsto> sid) \<rparr>;
                     st5 = st4\<lparr> session_user := (session_user st4)(u2 \<mapsto> sid) \<rparr>
                 in (Some sid, st5\<lparr> metrics := metrics st5 @ [TrackSessionStart t] \<rparr>))))"

definition endSession ::
  "string \<Rightarrow> SessionStatus \<Rightarrow> bool \<Rightarrow> nat \<Rightarrow> store \<Rightarrow> bool \<times> store" where
  "endSession sid status updated now st =
     (case getSessionById sid st of
        None \<Rightarrow> (False, st)
      | Some sessionData \<Rightarrow>
          (let durationSeconds = (real now - real (startedAt sessionData)) / 1000 in
           if updated then
             (let st1 = st\<lparr> session := (session st)(sid := None) \<rparr>;
                  st2 = st1\<lparr> session_user := (session_user st1)(user1Id sessionData := None) \<rparr>;
                  st3 = st2\<lparr> session_user := (session_user st2)(user2Id sessionData := None) \<rparr>;
                  reason = (if status = ENDED then ''normal''
                            else if status = ABANDONED then ''timeout'' else ''disconnect'')
              in (True, st3\<lparr> metrics := metrics st3 @
                    [TrackSessionEnd (sessionType sessionData) reason durationSeconds] \<rparr>))
           else (False, st)))"

definition endSessionForUser :: "string \<Rightarrow> bool \<Rightarrow> nat \<Rightarrow> store \<Rightarrow> bool \<times> store" where
  "endSessionForUser uid updated now st =
     (case getActiveSession uid st of
        (None, st1) \<Rightarrow> (False, st1)
      | (Some s, st1) \<Rightarrow> endSession (session_id s) ENDED updated now st1)"

definition isUserInSession :: "string \<Rightarrow> store \<Rightarrow> bool \<times> store" where
  "isUserInSession uid st = (case getActiveSession uid st of (s, st1) \<Rightarrow> (s \<noteq> None, st1))"

definition getSessionPartner :: "string \<Rightarrow> store \<Rightarrow> string option \<times> store" where
  "getSessionPartner uid st =
     (case getActiveSession uid st of
        (None, st1) \<Rightarrow> (None, st1)
      | (Some s, st1) \<Rightarrow> (Some (if user1Id s = uid then user2Id s else user1Id s), st1))"

text \<open>
  \<^verbatim>\<open>cleanupAbandonedSessions\<close>, the periodic job of the session manager. Its first step
  works on the database only. Then it scans the keys under the session prefix and deletes
  each one whose database row is missing or not active. \<open>keys\<close> lists the session ids of
  the scanned keys, in scan order; \<open>db\<close> is what \<^verbatim>\<open>Session.findById\<close> answers, the status of
  the row or \<open>None\<close>.
\<close>






section \<open>PairingEngine\<close>

record IMatchResult =
  success :: bool
  sessionId :: "string option"
  partner :: "IQueueUser option"
  error :: "string option"

definition failure :: "string \<Rightarrow> IMatchResult" where
  "failure msg = \<lparr> success = False, sessionId = None, partner = None, error = Some msg \<rparr>"

text \<open>
  What one run of \<^verbatim>\<open>matchUser\<close> reads from outside the store: whether the matching lock
  was handed out, what the database answered to \<^verbatim>\<open>Session.create\<close>, and the clock at
  each place the run reads it.
\<close>

record match_env =
  lock_acquired :: bool
  db_created :: "string option"
  at_reinsert :: nat
  at_session :: nat
  at_readd_self :: nat
  at_readd_partner :: nat
  at_leave_self :: nat
  at_leave_partner :: nat

definition matchUser ::
  "string \<Rightarrow> SessionType \<Rightarrow> match_env \<Rightarrow> store \<Rightarrow> IMatchResult \<times> store" where
  "matchUser uid queueType env st =
     (case isUserInQueue uid st of
        None \<Rightarrow> (failure ''User not in queue'', st)
      | Some inQueue \<Rightarrow>
          (case findMatch uid queueType (lock_acquired env) (at_reinsert env) st of
             (None, st1) \<Rightarrow> (failure ''No match found'', st1)
           | (Some p, st1) \<Rightarrow>
               (case createSession queueType uid (userId p) (db_created env) (at_session env) st1 of
                  (None, st2) \<Rightarrow>
                    (let st3 = snd (addToQueue uid [] queueType (at_readd_self env) st2);
                         st4 = snd (addToQueue (userId p) (socketId p) queueType
                                      (at_readd_partner env) st3)
                     in (failure ''Failed to create session'',
                         st4\<lparr> metrics := metrics st4 @
                           [TrackError ''matching'' ''session_creation_failed''] \<rparr>))
                | (Some sid, st2) \<Rightarrow>
                    (let st3 = snd (removeFromQueue uid queueType (at_leave_self env) st2);
                         st4 = snd (removeFromQueue (userId p) queueType (at_leave_partner env) st3);
                         st5 = st4\<lparr> published := published st4 @
                                 [MatchFound sid uid (userId p) queueType] \<rparr>
                     in (\<lparr> success = True, sessionId = Some sid, partner = Some p, error = None \<rparr>,
                         st5\<lparr> metrics := metrics st5 @ [TrackQueueLeave queueType ''matched''] \<rparr>)))))"

definition quickMatch ::
  "string \<Rightarrow> string \<Rightarrow> SessionType \<Rightarrow> nat \<Rightarrow> match_env \<Rightarrow> store \<Rightarrow> IMatchResult \<times> store" where
  "quickMatch uid sock queueType now env st =
     (case addToQueue uid sock queueType now st of
        (False, st1) \<Rightarrow> (failure ''Failed to join queue'', st1)
      | (True, st1) \<Rightarrow>
          (case matchUser uid queueType env st1 of
             (result, st2) \<Rightarrow>
               if success result then (result, st2)
               else (failure ''Waiting for match'', st2)))"

section \<open>Sockets and presence\<close>

text \<open>
  A connected socket: its id and the identity the authentication middleware attached to
  it. A chat text is a JavaScript string, a sequence of 16-bit code units.
\<close>

record Socket =
  socket_id :: string
  socket_userId :: string
  socket_username :: string

type_synonym jsstring = "16 word list"

text \<open>The code units \<^verbatim>\<open>String.prototype.trim\<close> strips: white space and line terminators.\<close>

definition isWhiteSpace :: "16 word \<Rightarrow> bool" where
  "isWhiteSpace c = (c \<in> set [0x0009, 0x000A, 0x000B, 0x000C, 0x000D, 0x0020, 0x00A0, 0x1680,
     0x2000, 0x2001, 0x2002, 0x2003, 0x2004, 0x2005, 0x2006, 0x2007, 0x2008, 0x2009, 0x200A,
     0x2028, 0x2029, 0x202F, 0x205F, 0x3000, 0xFEFF])"

definition trim :: "jsstring \<Rightarrow> jsstring" where
  "trim s = rev (dropWhile isWhiteSpace (rev (dropWhile isWhiteSpace s)))"

text \<open>
  Modelled from the spec: the presence tracker (\<^verbatim>\<open>services/friends/presenceTracker\<close>) is
  not among the sources. The spec keeps one presence record per user and reads its absence
  as offline: going online writes the record, going offline removes it.
\<close>

definition setUserOnline :: "string \<Rightarrow> string \<Rightarrow> store \<Rightarrow> store" where
  "setUserOnline uid sid st = st\<lparr> presence := (presence st)(uid \<mapsto> sid) \<rparr>"

definition setUserOffline :: "string \<Rightarrow> store \<Rightarrow> store" where
  "setUserOffline uid st = st\<lparr> presence := (presence st)(uid := None) \<rparr>"

definition isUserOnline :: "string \<Rightarrow> store \<Rightarrow> bool" where
  "isUserOnline uid st = (presence st uid \<noteq> None)"

subsection \<open>SocketManager\<close>

text \<open>
  \<open>userSockets\<close> maps a user to the set of its socket ids; the set is a list without
  repetition, in insertion order, which is the order a JavaScript \<^verbatim>\<open>Set\<close> is walked in.
\<close>

record SocketManager =
  userSockets :: "string \<rightharpoonup> string list"

definition set_add :: "string list \<Rightarrow> string \<Rightarrow> string list" where
  "set_add xs x = (if x \<in> set xs then xs else xs @ [x])"

definition registerSocket :: "Socket \<Rightarrow> SocketManager \<Rightarrow> store \<Rightarrow> SocketManager \<times> store" where
  "registerSocket socket sm st =
     (let uid = socket_userId socket;
          sm1 = (if userSockets sm uid = None
                 then sm\<lparr> userSockets := (userSockets sm)(uid \<mapsto> []) \<rparr> else sm);
          sm2 = (case userSockets sm1 uid of
                   Some userSocketSet \<Rightarrow>
                     sm1\<lparr> userSockets := (userSockets sm1)(uid \<mapsto> set_add userSocketSet (socket_id socket)) \<rparr>
                 | None \<Rightarrow> sm1)
      in (sm2, setUserOnline uid (socket_id socket) st))"

definition unregisterSocket :: "Socket \<Rightarrow> SocketManager \<Rightarrow> store \<Rightarrow> SocketManager \<times> store" where
  "unregisterSocket socket sm st =
     (let uid = socket_userId socket in
      case userSockets sm uid of
        None \<Rightarrow> (sm, st)
      | Some userSocketSet \<Rightarrow>
          (let userSocketSet' = removeAll (socket_id socket) userSocketSet in
           if length userSocketSet' = 0
           then (sm\<lparr> userSockets := (userSockets sm)(uid := None) \<rparr>, setUserOffline uid st)
           else (sm\<lparr> userSockets := (userSockets sm)(uid \<mapsto> userSocketSet') \<rparr>, st)))"

definition getUserSockets :: "SocketManager \<Rightarrow> string \<Rightarrow> string list" where
  "getUserSockets sm uid = (case userSockets sm uid of Some s \<Rightarrow> s | None \<Rightarrow> [])"

text \<open>
  The events and payloads that the handlers of \<^verbatim>\<open>chat:message\<close>, \<^verbatim>\<open>call:offer\<close>,
  \<^verbatim>\<open>call:answer\<close> and \<^verbatim>\<open>call:ice\<close> send: \<open>Message m\<close> is \<^verbatim>\<open>{ message: m }\<close>,
  \<open>ChatMessage m t u\<close> is \<^verbatim>\<open>{ message: m, timestamp: t, senderId: u }\<close>, and \<open>Offer b u\<close> is
  \<^verbatim>\<open>{ offer: b, senderId: u }\<close>, likewise for answer and candidate. A WebRTC blob (offer,
  answer, candidate) is a value of the type variable \<open>'p\<close>: the handlers cannot look into it.
\<close>

datatype WSEvents = ERROR | CALL_OFFER | CALL_ANSWER | CALL_ICE_CANDIDATE | CALL_ERROR
  | CHAT_MESSAGE

datatype 'p payload =
    Message string
  | ChatMessage jsstring nat string
  | Offer 'p string
  | Answer 'p string
  | Candidate 'p string

text \<open>\<open>Emit s e d\<close>: event \<open>e\<close> with data \<open>d\<close> goes out to the socket with id \<open>s\<close>.\<close>

datatype 'p emission = Emit string WSEvents "'p payload"

definition emitToUser ::
  "SocketManager \<Rightarrow> string \<Rightarrow> WSEvents \<Rightarrow> 'p payload \<Rightarrow> 'p emission list" where
  "emitToUser sm uid event data = map (\<lambda>sid. Emit sid event data) (getUserSockets sm uid)"

definition socket_emit :: "Socket \<Rightarrow> WSEvents \<Rightarrow> 'p payload \<Rightarrow> 'p emission list" where
  "socket_emit socket event data = [Emit (socket_id socket) event data]"

subsection \<open>Chat handler\<close>

text \<open>
  Each handler answers with the emissions it makes and the store it leaves. A partner id
  counts as missing when it is the empty string, as the source's truthiness test has it.
\<close>

definition on_CHAT_MESSAGE ::
  "Socket \<Rightarrow> jsstring \<Rightarrow> nat \<Rightarrow> SocketManager \<Rightarrow> store \<Rightarrow> 'p emission list \<times> store" where
  "on_CHAT_MESSAGE socket message now sm st =
     (if message = [] \<or> length (trim message) = 0
      then (socket_emit socket ERROR (Message ''Message cannot be empty''), st)
      else if length message > 1000
      then (socket_emit socket ERROR (Message ''Message too long (max 1000 characters)''), st)
      else
        (case getSessionPartner (socket_userId socket) st of
           (None, st1) \<Rightarrow> (socket_emit socket ERROR (Message ''No active session''), st1)
         | (Some partnerId, st1) \<Rightarrow>
             if partnerId = []
             then (socket_emit socket ERROR (Message ''No active session''), st1)
             else (emitToUser sm partnerId CHAT_MESSAGE
                     (ChatMessage message now (socket_userId socket)),
                   st1\<lparr> metrics := metrics st1 @ [MessagesSentInc ''random''] \<rparr>)))"

subsection \<open>Signal handler\<close>

definition on_CALL_OFFER ::
  "Socket \<Rightarrow> 'p \<Rightarrow> SocketManager \<Rightarrow> store \<Rightarrow> 'p emission list \<times> store" where
  "on_CALL_OFFER socket offer sm st =
     (case getSessionPartner (socket_userId socket) st of
        (None, st1) \<Rightarrow> (socket_emit socket CALL_ERROR (Message ''No active session''), st1)
      | (Some partnerId, st1) \<Rightarrow>
          if partnerId = []
          then (socket_emit socket CALL_ERROR (Message ''No active session''), st1)
          else (emitToUser sm partnerId CALL_OFFER (Offer offer (socket_userId socket)), st1))"

definition on_CALL_ANSWER ::
  "Socket \<Rightarrow> 'p \<Rightarrow> SocketManager \<Rightarrow> store \<Rightarrow> 'p emission list \<times> store" where
  "on_CALL_ANSWER socket answer sm st =
     (case getSessionPartner (socket_userId socket) st of
        (None, st1) \<Rightarrow> (socket_emit socket CALL_ERROR (Message ''No active session''), st1)
      | (Some partnerId, st1) \<Rightarrow>
          if partnerId = []
          then (socket_emit socket CALL_ERROR (Message ''No active session''), st1)
          else (emitToUser sm partnerId CALL_ANSWER (Answer answer (socket_userId socket)), st1))"

definition on_CALL_ICE_CANDIDATE ::
  "Socket \<Rightarrow> 'p \<Rightarrow> SocketManager \<Rightarrow> store \<Rightarrow> 'p emission list \<times> store" where
  "on_CALL_ICE_CANDIDATE socket candidate sm st =
     (case getSessionPartner (socket_userId socket) st of
        (None, st1) \<Rightarrow> ([], st1)
      | (Some partnerId, st1) \<Rightarrow>
          if partnerId = [] then ([], st1)
          else (emitToUser sm partnerId CALL_ICE_CANDIDATE
                  (Candidate candidate (socket_userId socket)), st1))"

subsection \<open>WebSocketServer\<close>

record WebSocketServer =
  ws_activeConnections :: "string \<rightharpoonup> Socket"

text \<open>
  \<open>updated\<close> is what the database answers if the cleanup gets to end a session; \<open>now\<close> is
  the clock of the cleanup.
\<close>

definition cleanupUserSession :: "string \<Rightarrow> bool \<Rightarrow> nat \<Rightarrow> store \<Rightarrow> store" where
  "cleanupUserSession uid updated now st =
     (let st1 = removeFromAllQueues uid now st;
          st2 = snd (endSessionForUser uid updated now st1)
      in setUserOffline uid st2)"

definition handleDisconnection ::
  "Socket \<Rightarrow> bool \<Rightarrow> nat \<Rightarrow> WebSocketServer \<Rightarrow> store \<Rightarrow> WebSocketServer \<times> store" where
  "handleDisconnection socket updated now ws st =
     (let ws1 = ws\<lparr> ws_activeConnections := (ws_activeConnections ws)(socket_id socket := None) \<rparr>;
          st1 = st\<lparr> metrics := metrics st @ [TrackWsDisconnection ''normal''] \<rparr>
      in (ws1, cleanupUserSession (socket_userId socket) updated now st1))"

section \<open>LoadBalancer\<close>

text \<open>
  The load figures are JavaScript numbers, that is IEEE-754 doubles. A finite double is a
  real number, and each arithmetic operation of the source yields the exact result rounded
  to the nearest double, ties to the even significand. \<open>toDouble\<close> is this rounding, with
  the 53-bit significand and the gradual underflow of doubles: \<open>binade\<close> finds the
  exponent \<open>e\<close> with \<open>2 ^ e \<le> x < 2 ^ (e + 1)\<close> within the exponent range of doubles, and the
  result is the multiple of \<open>2 ^ (e - 52)\<close> nearest to \<open>x\<close>. The load figures are read from
  JSON, so they are finite doubles, and the connection count is an integer below
  \<open>2 ^ 53\<close>. Infinities and NaN are not modelled: the figures are taken to be of a size
  whose score stays below the largest double.
\<close>

fun binade :: "nat \<Rightarrow> real \<Rightarrow> int \<Rightarrow> int" where
  "binade 0 x e = e"
| "binade (Suc n) x e =
     (if 2 \<le> x then binade n (x / 2) (e + 1)
      else if x < 1 then binade n (x * 2) (e - 1)
      else e)"

definition pow2 :: "int \<Rightarrow> real" where
  "pow2 k = (if 0 \<le> k then 2 ^ nat k else 1 / 2 ^ nat (- k))"

definition roundTiesToEven :: "real \<Rightarrow> int" where
  "roundTiesToEven q =
     (let f = \<lfloor>q\<rfloor>; r = q - of_int f
      in if r < 1 / 2 then f else if 1 / 2 < r then f + 1 else if even f then f else f + 1)"

definition toDouble :: "real \<Rightarrow> real" where
  "toDouble x =
     (if x = 0 then 0
      else
        (let e = max (binade 1100 \<bar>x\<bar> 0) (- 1022);
             ulp = pow2 (e - 52)
         in sgn x * of_int (roundTiesToEven (\<bar>x\<bar> / ulp)) * ulp))"

record IServerInstance =
  instanceId :: string
  host :: string
  port :: nat
  activeConnections :: nat
  cpuUsage :: real
  memoryUsage :: real
  lastHeartbeat :: nat
  isHealthy :: bool

text \<open>
  \<open>scan\<close> lists the instance records in the order the key scan yields them; \<open>now\<close> is the
  clock reading.
\<close>

definition getHealthyInstances :: "nat \<Rightarrow> IServerInstance list \<Rightarrow> IServerInstance list" where
  "getHealthyInstances now scan =
     filter (\<lambda>instance. int now - int (lastHeartbeat instance) < 30000 \<and> isHealthy instance) scan"

text \<open>
  The score as the source computes it: the literals are the doubles nearest to the decimal
  fractions, and each product, quotient and sum is rounded.
\<close>

definition loadScore :: "IServerInstance \<Rightarrow> real" where
  "loadScore instance =
     toDouble (toDouble (toDouble (cpuUsage instance * toDouble 0.4)
                           + toDouble (memoryUsage instance * toDouble 0.3))
                 + toDouble (toDouble (real (activeConnections instance) / 100) * toDouble 0.3))"

text \<open>
  \<^verbatim>\<open>Array.prototype.sort\<close> is stable: instances of equal score keep their scan order.
  The comparator is the difference of two scores; the difference of two doubles has the
  sign of their exact difference, so it orders by the scores. The answer pairs the
  instance with its score.
\<close>

definition getLeastLoadedInstance ::
  "nat \<Rightarrow> IServerInstance list \<Rightarrow> (IServerInstance \<times> real) option" where
  "getLeastLoadedInstance now scan =
     (let instances = getHealthyInstances now scan in
      if length instances = 0 then None
      else
        (let instancesWithScore = map (\<lambda>instance. (instance, loadScore instance)) instances;
             sortedInstances = sort_key snd instancesWithScore
         in Some (sortedInstances ! 0)))"

section \<open>Invariants and example states\<close>



text \<open>User \<open>a\<close> waits in the video queue.\<close>

definition st_a :: store where
  "st_a = snd (addToQueue ''a'' ''sa'' VIDEO 1000 empty_store)"

text \<open>
  Users \<open>a\<close> and \<open>b\<close> wait in the video queue, and a removal of \<open>b\<close> from the audio queue
  has gone through.
\<close>

definition st_ab :: store where
  "st_ab = snd (removeFromQueue ''b'' AUDIO 2500
             (snd (addToQueue ''b'' ''sb'' VIDEO 2000 st_a)))"

text \<open>A session of \<open>a\<close> and \<open>b\<close> has been created on the empty store.\<close>

definition st_session :: store where
  "st_session = snd (createSession TEXT ''a'' ''b'' (Some ''s1'') 100 empty_store)"



text \<open>Every sidecar record carries the user id of the key it is stored under.\<close>

definition sidecar_ok :: "store \<Rightarrow> bool" where
  "sidecar_ok st = (\<forall>u d. userdata st (VIDEO, u) = Some d \<longrightarrow> userId d = u)"

text \<open>The queue manager's part of the store is well formed.\<close>

definition qm_ok :: "store \<Rightarrow> bool" where
  "qm_ok st = ((\<forall>t. zset_ok (queue st t)) \<and> sidecar_ok st)"

text \<open>
  User \<open>b\<close> joins the video queue behind \<open>a\<close> and is paired with \<open>a\<close>, in a run where the
  lock is free and the database makes no session row.
\<close>

definition env_db_down :: match_env where
  "env_db_down = \<lparr> lock_acquired = True, db_created = None, at_reinsert = 2001,
     at_session = 2002, at_readd_self = 3000, at_readd_partner = 3001,
     at_leave_self = 3002, at_leave_partner = 3003 \<rparr>"

definition st_join :: store where
  "st_join = snd (addToQueue ''b'' ''sb'' VIDEO 2000 st_a)"

definition st_found :: store where
  "st_found = snd (findMatch ''b'' VIDEO True 2001 st_join)"

definition data_a :: IQueueUser where
  "data_a = \<lparr> userId = ''a'', socketId = ''sa'', joinedAt = 1000 \<rparr>"

text \<open>Sockets of the users \<open>a\<close> (two tabs) and \<open>b\<close>, and a registry holding one of each.\<close>

definition sock_a :: Socket where
  "sock_a = \<lparr> socket_id = ''sock-a'', socket_userId = ''a'', socket_username = ''alice'' \<rparr>"

definition sock_a2 :: Socket where
  "sock_a2 = \<lparr> socket_id = ''sock-a2'', socket_userId = ''a'', socket_username = ''alice'' \<rparr>"

definition sock_b :: Socket where
  "sock_b = \<lparr> socket_id = ''sock-b'', socket_userId = ''b'', socket_username = ''bob'' \<rparr>"

definition sm_ab :: SocketManager where
  "sm_ab = fst (registerSocket sock_b
             (fst (registerSocket sock_a \<lparr> userSockets = Map.empty \<rparr> empty_store)) empty_store)"

text \<open>User \<open>a\<close> is connected with two sockets and is marked online.\<close>

definition ws_two :: WebSocketServer where
  "ws_two = \<lparr> ws_activeConnections = [''sock-a'' \<mapsto> sock_a, ''sock-a2'' \<mapsto> sock_a2] \<rparr>"

definition st_online :: store where
  "st_online = setUserOnline ''a'' ''sock-a2'' (setUserOnline ''a'' ''sock-a'' empty_store)"

text \<open>
  Three instance records: two of equal load, the one scanned first with the later
  heartbeat, and a busier one.
\<close>

definition inst_hi :: IServerInstance where
  "inst_hi = \<lparr> instanceId = ''i1'', host = ''h1'', port = 3000, activeConnections = 10,
     cpuUsage = 50, memoryUsage = 40, lastHeartbeat = 9000, isHealthy = True \<rparr>"

definition inst_lo :: IServerInstance where
  "inst_lo = \<lparr> instanceId = ''i2'', host = ''h2'', port = 3000, activeConnections = 10,
     cpuUsage = 50, memoryUsage = 40, lastHeartbeat = 5000, isHealthy = True \<rparr>"

text \<open>
  Two instance records whose scores are both 6/5 in exact arithmetic and differ as the
  source computes them.
\<close>

definition inst_cpu3 :: IServerInstance where
  "inst_cpu3 = \<lparr> instanceId = ''A'', host = ''hA'', port = 3000, activeConnections = 0,
     cpuUsage = 3, memoryUsage = 0, lastHeartbeat = 9000, isHealthy = True \<rparr>"

definition inst_mem4 :: IServerInstance where
  "inst_mem4 = \<lparr> instanceId = ''B'', host = ''hB'', port = 3000, activeConnections = 0,
     cpuUsage = 0, memoryUsage = 4, lastHeartbeat = 9000, isHealthy = True \<rparr>"

section \<open>Sorted-set facts\<close>

lemmas qm_defs = addToQueue_def removeFromQueue_def findMatch_def getUserData_def
  getQueueSize_def zscore_def zadd_def zrem_def zrange_def zcard_def zbefore_def empty_store_def

lemma set_zinsert: "set (zinsert e q) = insert e (set q)"
  by (induction q) auto

lemma map_of_zinsert: "m \<notin> fst ` set q \<Longrightarrow> map_of (zinsert (m, s) q) = (map_of q)(m \<mapsto> s)"
proof (induction q)
  case Nil
  then show ?case by simp
next
  case (Cons e q)
  obtain m' s' where e: "e = (m', s')" by (cases e)
  from Cons.prems e have ne: "m' \<noteq> m" and rest: "m \<notin> fst ` set q" by auto
  from Cons.IH [OF rest] ne e show ?case by (auto simp: fun_upd_twist)
qed

lemma map_of_filter_other: "m' \<noteq> m \<Longrightarrow> map_of (filter (\<lambda>e. fst e \<noteq> m) q) m' = map_of q m'"
  by (induction q) auto

lemma map_of_filter_out: "m \<in> set ms \<Longrightarrow> map_of (filter (\<lambda>e. fst e \<notin> set ms) q) m = None"
  by (induction q) auto

lemma map_of_filter_keep:
  "m \<notin> set ms \<Longrightarrow> map_of (filter (\<lambda>e. fst e \<notin> set ms) q) m = map_of q m"
  by (induction q) auto

lemma zscore_zadd_same: "zscore (zadd q s m) m = Some s"
  unfolding zscore_def zadd_def
  by (subst map_of_zinsert) auto

lemma zscore_zadd_other: "m' \<noteq> m \<Longrightarrow> zscore (zadd q s m) m' = zscore q m'"
  unfolding zscore_def zadd_def
  by (subst map_of_zinsert) (auto simp: map_of_filter_other)

lemma zscore_zrem_in: "m \<in> set ms \<Longrightarrow> zscore (snd (zrem q ms)) m = None"
  by (simp add: zscore_def zrem_def map_of_filter_out)

lemma zscore_zrem_notin: "m \<notin> set ms \<Longrightarrow> zscore (snd (zrem q ms)) m = zscore q m"
  by (simp add: zscore_def zrem_def map_of_filter_keep)

lemma distinct_zinsert:
  "distinct (map fst q) \<Longrightarrow> fst e \<notin> fst ` set q \<Longrightarrow> distinct (map fst (zinsert e q))"
  by (induction q) (auto simp: set_zinsert)

lemma distinct_zadd: "distinct (map fst q) \<Longrightarrow> distinct (map fst (zadd q s m))"
  unfolding zadd_def by (rule distinct_zinsert) (auto simp: distinct_map_filter)

lemma distinct_zrem: "distinct (map fst q) \<Longrightarrow> distinct (map fst (snd (zrem q ms)))"
  by (simp add: zrem_def distinct_map_filter)

lemma zrange_two: "zrange q 0 1 = [a, b] \<Longrightarrow> \<exists>sa sb rest. q = (a, sa) # (b, sb) # rest"
  by (cases q; cases "tl q") (auto simp: zrange_def)

lemma zrange_short: "length (zrange q 0 1) < 2 \<or> (\<exists>a b. zrange q 0 1 = [a, b])"
  by (cases q; cases "tl q") (auto simp: zrange_def)

lemma zrem_count_zero: "map_of q u = None \<Longrightarrow> filter (\<lambda>e. fst e = u) q = []"
  by (induction q) (auto split: if_splits)

lemma zbefore_trans: "zbefore x y \<Longrightarrow> zbefore y z \<Longrightarrow> zbefore x z"
  by (auto simp: zbefore_def)

lemma zbefore_total: "fst e \<noteq> fst e' \<Longrightarrow> \<not> zbefore e e' \<Longrightarrow> zbefore e' e"
  by (auto simp: zbefore_def)

lemma sorted_zinsert:
  "sorted_wrt zbefore q \<Longrightarrow> fst e \<notin> fst ` set q \<Longrightarrow> sorted_wrt zbefore (zinsert e q)"
proof (induction q)
  case Nil
  then show ?case by simp
next
  case (Cons e' q)
  show ?case
  proof (cases "zbefore e e'")
    case True
    with Cons.prems show ?thesis by (auto intro: zbefore_trans)
  next
    case False
    with Cons.prems have "zbefore e' e" by (auto intro: zbefore_total)
    with Cons False show ?thesis by (auto simp: set_zinsert)
  qed
qed

lemma zset_ok_zadd: "zset_ok q \<Longrightarrow> zset_ok (zadd q s m)"
proof -
  assume ok: "zset_ok q"
  then have d: "distinct (map fst (zadd q s m))" by (simp add: zset_ok_def distinct_zadd)
  from ok have "sorted_wrt zbefore (filter (\<lambda>e. fst e \<noteq> m) q)"
    by (simp add: zset_ok_def sorted_wrt_filter)
  then have "sorted_wrt zbefore (zadd q s m)"
    unfolding zadd_def by (rule sorted_zinsert) auto
  with d show ?thesis by (simp add: zset_ok_def)
qed

lemma zset_ok_zrem: "zset_ok q \<Longrightarrow> zset_ok (snd (zrem q ms))"
  by (simp add: zset_ok_def zrem_def distinct_map_filter sorted_wrt_filter)

text \<open>The operations of the queue manager keep its part of the store well formed.\<close>

lemma qm_ok_queue_upd:
  "qm_ok st \<Longrightarrow> zset_ok q \<Longrightarrow> qm_ok (st\<lparr> queue := (queue st)(t := q) \<rparr>)"
  by (simp add: qm_ok_def sidecar_ok_def)

lemma qm_ok_metrics_upd: "qm_ok (st\<lparr> metrics := m \<rparr>) = qm_ok st"
  by (simp add: qm_ok_def sidecar_ok_def)

lemma qm_ok_userdata_put:
  "qm_ok st \<Longrightarrow> userId d = u \<Longrightarrow> qm_ok (st\<lparr> userdata := (userdata st)((VIDEO, u) \<mapsto> d) \<rparr>)"
  by (simp add: qm_ok_def sidecar_ok_def)

lemma qm_ok_empty: "qm_ok empty_store"
  by (simp add: qm_ok_def sidecar_ok_def zset_ok_def empty_store_def)

lemma qm_ok_addToQueue:
  assumes "qm_ok st"
  shows "qm_ok (snd (addToQueue u sock t now st))"
proof (cases "zscore (queue st t) u")
  case None
  define st1 where "st1 = st\<lparr> userdata := (userdata st)((VIDEO, u) \<mapsto>
      \<lparr> userId = u, socketId = sock, joinedAt = now \<rparr>) \<rparr>"
  have ok1: "qm_ok st1" unfolding st1_def using assms by (rule qm_ok_userdata_put) simp
  then have z: "zset_ok (zadd (queue st1 t) now u)" by (simp add: qm_ok_def zset_ok_zadd)
  have "qm_ok (st1\<lparr> queue := (queue st1)(t := zadd (queue st1 t) now u) \<rparr>)"
    using ok1 z by (rule qm_ok_queue_upd)
  then show ?thesis
    using None by (simp add: addToQueue_def Let_def st1_def qm_ok_metrics_upd)
next
  case (Some a)
  with assms show ?thesis by (simp add: addToQueue_def)
qed

lemma qm_ok_removeFromQueue:
  assumes "qm_ok st"
  shows "qm_ok (snd (removeFromQueue u t now st))"
proof -
  define st1 where "st1 = (case getUserData u st of
      Some userData \<Rightarrow> st\<lparr> metrics := metrics st @
          [TrackQueueWaitTime t ((real now - real (joinedAt userData)) / 1000)] \<rparr>
    | None \<Rightarrow> st)"
  have ok1: "qm_ok st1"
    using assms by (simp add: st1_def qm_ok_metrics_upd split: option.splits)
  then have z: "zset_ok (snd (zrem (queue st1 t) [u]))" by (simp add: qm_ok_def zset_ok_zrem)
  have "qm_ok (st1\<lparr> queue := (queue st1)(t := snd (zrem (queue st1 t) [u])) \<rparr>)"
    using ok1 z by (rule qm_ok_queue_upd)
  then have "qm_ok (st1\<lparr> queue := (queue st1)(t := snd (zrem (queue st1 t) [u])),
      userdata := (userdata st1)((VIDEO, u) := None) \<rparr>)"
    by (simp add: qm_ok_def sidecar_ok_def)
  then show ?thesis
    by (simp add: removeFromQueue_def Let_def case_prod_unfold st1_def [symmetric]
          qm_ok_metrics_upd)
qed

lemma removeFromQueue_parts:
  "removeFromQueue uid t now st = removeFromQueue_write uid t (removeFromQueue_read uid t now st)"
  by (simp add: removeFromQueue_def removeFromQueue_read_def removeFromQueue_write_def Let_def)

lemma findMatch_in_top_two:
  assumes "lock" and "zrange (queue st t) 0 1 = [a, b]" and "u = a \<or> u = b"
  shows "findMatch u t lock now st =
     (case getUserData (if a = u then b else a) st of
        None \<Rightarrow> (None, snd (addToQueue u [] t now
                  (st\<lparr> queue := (queue st)(t := snd (zrem (queue st t) [a, b])) \<rparr>)))
      | Some p \<Rightarrow> (Some p,
          st\<lparr> queue := (queue st)(t := snd (zrem (queue st t) [a, b])),
              metrics := metrics st @
                [UpdateQueueSize t (zcard (snd (zrem (queue st t) [a, b]))),
                 TrackQueueLeave t ''matched''] \<rparr>))"
  using assms
  by (auto simp: findMatch_def Let_def zrem_def getUserData_def getQueueSize_def
        split: option.splits)

lemma qm_ok_findMatch:
  assumes "qm_ok st"
  shows "qm_ok (snd (findMatch u t lock now st))"
proof (cases "lock \<and> \<not> length (zrange (queue st t) 0 1) < 2 \<and> u \<in> set (zrange (queue st t) 0 1)")
  case False
  with assms show ?thesis by (auto simp: findMatch_def Let_def)
next
  case True
  then obtain a b where ab: "zrange (queue st t) 0 1 = [a, b]"
    using zrange_short [of "queue st t"] by auto
  with True have mem: "u = a \<or> u = b" by auto
  define st1 where "st1 = st\<lparr> queue := (queue st)(t := snd (zrem (queue st t) [a, b])) \<rparr>"
  have ok1: "qm_ok st1"
    unfolding st1_def using assms by (intro qm_ok_queue_upd) (simp_all add: qm_ok_def zset_ok_zrem)
  from True have l: lock by simp
  show ?thesis
  proof (cases "getUserData (if a = u then b else a) st")
    case None
    with qm_ok_addToQueue [OF ok1, of u "[]" t now] show ?thesis
      by (simp add: findMatch_in_top_two [OF l ab mem] st1_def)
  next
    case (Some p)
    with ok1 show ?thesis
      by (simp add: findMatch_in_top_two [OF l ab mem] st1_def qm_ok_metrics_upd)
  qed
qed

lemma st_a_ok: "qm_ok st_a"
  unfolding st_a_def by (rule qm_ok_addToQueue [OF qm_ok_empty])

lemma st_ab_ok: "qm_ok st_ab"
  unfolding st_ab_def by (intro qm_ok_removeFromQueue qm_ok_addToQueue st_a_ok)

lemma st_a_queue: "queue st_a = (\<lambda>t. [])(VIDEO := [(''a'', 1000)])"
  by (simp add: st_a_def qm_defs)

lemma st_ab_queue: "queue st_ab t = (if t = VIDEO then [(''a'', 1000), (''b'', 2000)] else [])"
  by (simp add: st_ab_def st_a_def qm_defs)

lemma st_ab_userdata:
  "userdata st_ab = [(VIDEO, ''a'') \<mapsto> \<lparr> userId = ''a'', socketId = ''sa'', joinedAt = 1000 \<rparr>]"
  by (auto simp: st_ab_def st_a_def qm_defs)

section \<open>Pair extraction\<close>

text \<open>
  Claim C1, as the code has it. With the members of the queue distinct, \<open>findMatch\<close> ends in
  one of three ways. When the lock is not acquired, fewer than two users wait or the caller
  is not among the two oldest, it answers nil and leaves the store as it was. Otherwise
  \<open>a\<close> and \<open>b\<close> are the two oldest and the caller is one of them. If the sidecar record of
  the other is there, \<open>findMatch\<close> answers it and both entries are gone from the queue; the
  sidecar records stay. If it is missing, \<open>findMatch\<close> answers nil, the entry of the other
  is gone, and the caller is back in the queue with the clock reading of the re-insertion
  as score and as \<open>joinedAt\<close> of a new sidecar record, whose socket id is empty.
\<close>

theorem C1_findMatch_outcomes:
  assumes "distinct (map fst (queue st t))"
  shows
   "(\<not> lock \<or> length (zrange (queue st t) 0 1) < 2 \<or> uid \<notin> set (zrange (queue st t) 0 1) \<longrightarrow>
       findMatch uid t lock now st = (None, st)) \<and>
    (lock \<and> \<not> length (zrange (queue st t) 0 1) < 2 \<and> uid \<in> set (zrange (queue st t) 0 1) \<longrightarrow>
       (\<exists>a b. zrange (queue st t) 0 1 = [a, b] \<and> a \<noteq> b \<and> (uid = a \<or> uid = b) \<and>
          (\<forall>p. getUserData (if a = uid then b else a) st = Some p \<longrightarrow>
             findMatch uid t lock now st =
               (Some p,
                st\<lparr> queue := (queue st)(t := snd (zrem (queue st t) [a, b])),
                    metrics := metrics st @
                      [UpdateQueueSize t (zcard (snd (zrem (queue st t) [a, b]))),
                       TrackQueueLeave t ''matched''] \<rparr>) \<and>
             zscore (snd (zrem (queue st t) [a, b])) a = None \<and>
             zscore (snd (zrem (queue st t) [a, b])) b = None) \<and>
          (getUserData (if a = uid then b else a) st = None \<longrightarrow>
             findMatch uid t lock now st =
               (None,
                st\<lparr> queue := (queue st)
                      (t := zadd (snd (zrem (queue st t) [a, b])) now uid),
                    userdata := (userdata st)((VIDEO, uid) \<mapsto>
                      \<lparr> userId = uid, socketId = [], joinedAt = now \<rparr>),
                    metrics := metrics st @
                      [UpdateQueueSize t
                         (zcard (zadd (snd (zrem (queue st t) [a, b])) now uid)),
                       TrackQueueJoin t] \<rparr>) \<and>
             zscore (zadd (snd (zrem (queue st t) [a, b])) now uid) uid = Some now \<and>
             zscore (zadd (snd (zrem (queue st t) [a, b])) now uid)
               (if a = uid then b else a) = None)))"
  (is "?A \<and> (?C \<longrightarrow> ?B)")
proof (cases "lock \<and> \<not> length (zrange (queue st t) 0 1) < 2 \<and> uid \<in> set (zrange (queue st t) 0 1)")
  case False
  then have "findMatch uid t lock now st = (None, st)"
    by (auto simp: findMatch_def Let_def)
  with False show ?thesis by blast
next
  case True
  then obtain a b where ab: "zrange (queue st t) 0 1 = [a, b]"
    using zrange_short [of "queue st t"] by auto
  from zrange_two [OF ab] assms have ne: "a \<noteq> b" by auto
  from True ab have mem: "uid = a \<or> uid = b" by auto
  from True have l: lock by simp
  define pid where "pid = (if a = uid then b else a)"
  define q' where "q' = snd (zrem (queue st t) [a, b])"
  have pne: "pid \<noteq> uid" using ne mem by (auto simp: pid_def)
  have gone: "zscore q' a = None" "zscore q' b = None" "zscore q' uid = None"
    using mem by (auto simp: q'_def zscore_zrem_in)
  have pgone: "zscore (zadd q' now uid) pid = None"
    using pne gone by (auto simp: zscore_zadd_other pid_def)
  have some: "\<And>p. getUserData pid st = Some p \<Longrightarrow>
      findMatch uid t lock now st =
        (Some p, st\<lparr> queue := (queue st)(t := q'),
                    metrics := metrics st @
                      [UpdateQueueSize t (zcard q'), TrackQueueLeave t ''matched''] \<rparr>)"
    by (simp add: findMatch_in_top_two [OF l ab mem] pid_def q'_def)
  have none: "getUserData pid st = None \<Longrightarrow>
      findMatch uid t lock now st =
        (None, st\<lparr> queue := (queue st)(t := zadd q' now uid),
                   userdata := (userdata st)((VIDEO, uid) \<mapsto>
                     \<lparr> userId = uid, socketId = [], joinedAt = now \<rparr>),
                   metrics := metrics st @
                     [UpdateQueueSize t (zcard (zadd q' now uid)), TrackQueueJoin t] \<rparr>)"
    using gone(3)
    by (simp add: findMatch_in_top_two [OF l ab mem] pid_def [symmetric] q'_def [symmetric]
          addToQueue_def Let_def getQueueSize_def)
  have big: "zrange (queue st t) 0 1 = [a, b] \<and> a \<noteq> b \<and> (uid = a \<or> uid = b) \<and>
      (\<forall>p. getUserData pid st = Some p \<longrightarrow>
         findMatch uid t lock now st =
           (Some p, st\<lparr> queue := (queue st)(t := q'),
                       metrics := metrics st @
                         [UpdateQueueSize t (zcard q'), TrackQueueLeave t ''matched''] \<rparr>) \<and>
         zscore q' a = None \<and> zscore q' b = None) \<and>
      (getUserData pid st = None \<longrightarrow>
         findMatch uid t lock now st =
           (None, st\<lparr> queue := (queue st)(t := zadd q' now uid),
                      userdata := (userdata st)((VIDEO, uid) \<mapsto>
                        \<lparr> userId = uid, socketId = [], joinedAt = now \<rparr>),
                      metrics := metrics st @
                        [UpdateQueueSize t (zcard (zadd q' now uid)), TrackQueueJoin t] \<rparr>) \<and>
         zscore (zadd q' now uid) uid = Some now \<and> zscore (zadd q' now uid) pid = None)"
    using ab ne mem some none gone pgone by (simp add: zscore_zadd_same)
  have B: ?B
    by (rule exI [of _ a], rule exI [of _ b]) (rule big [unfolded pid_def q'_def])
  have A: ?A using True by simp
  show ?thesis by (rule conjI [OF A impI [OF B]])
qed

text \<open>
  Witness for C1: in the example state the queue has distinct members, \<open>a\<close> and \<open>b\<close> are
  the two oldest, and \<open>b\<close> has no sidecar record. With the lock, \<open>a\<close> is re-inserted with a
  new sidecar record; without the lock nothing happens.
\<close>

theorem C1_findMatch_outcomes_witness:
  "distinct (map fst (queue st_ab VIDEO)) \<and>
   zrange (queue st_ab VIDEO) 0 1 = [''a'', ''b''] \<and>
   getUserData ''b'' st_ab = None \<and>
   fst (findMatch ''a'' VIDEO True 3000 st_ab) = None \<and>
   queue (snd (findMatch ''a'' VIDEO True 3000 st_ab)) VIDEO = [(''a'', 3000)] \<and>
   getUserData ''a'' (snd (findMatch ''a'' VIDEO True 3000 st_ab)) =
     Some \<lparr> userId = ''a'', socketId = [], joinedAt = 3000 \<rparr> \<and>
   findMatch ''a'' VIDEO False 3000 st_ab = (None, st_ab)"
proof -
  have d: "distinct (map fst (queue st_ab VIDEO))" by (simp add: st_ab_queue)
  have r: "zrange (queue st_ab VIDEO) 0 1 = [''a'', ''b'']" by (simp add: st_ab_queue zrange_def)
  have u: "getUserData ''b'' st_ab = None" by (simp add: getUserData_def st_ab_userdata)
  note th = C1_findMatch_outcomes [OF d, of _ "''a''" 3000]
  from th [of False] have nolock: "findMatch ''a'' VIDEO False 3000 st_ab = (None, st_ab)"
    by simp
  from th [of True] r obtain a b where
    ab: "[''a'', ''b''] = [a, b]" and
    n: "getUserData (if a = ''a'' then b else a) st_ab = None \<longrightarrow>
         findMatch ''a'' VIDEO True 3000 st_ab =
           (None,
            st_ab\<lparr> queue := (queue st_ab)
                  (VIDEO := zadd (snd (zrem (queue st_ab VIDEO) [a, b])) 3000 ''a''),
                userdata := (userdata st_ab)((VIDEO, ''a'') \<mapsto>
                  \<lparr> userId = ''a'', socketId = [], joinedAt = 3000 \<rparr>),
                metrics := metrics st_ab @
                  [UpdateQueueSize VIDEO
                     (zcard (zadd (snd (zrem (queue st_ab VIDEO) [a, b])) 3000 ''a'')),
                   TrackQueueJoin VIDEO] \<rparr>) \<and>
         zscore (zadd (snd (zrem (queue st_ab VIDEO) [a, b])) 3000 ''a'') ''a'' = Some 3000 \<and>
         zscore (zadd (snd (zrem (queue st_ab VIDEO) [a, b])) 3000 ''a'')
           (if a = ''a'' then b else a) = None"
    by auto
  from ab have a: "a = ''a''" and b: "b = ''b''" by auto
  from n u have f: "findMatch ''a'' VIDEO True 3000 st_ab =
           (None,
            st_ab\<lparr> queue := (queue st_ab)
                  (VIDEO := zadd (snd (zrem (queue st_ab VIDEO) [''a'', ''b''])) 3000 ''a''),
                userdata := (userdata st_ab)((VIDEO, ''a'') \<mapsto>
                  \<lparr> userId = ''a'', socketId = [], joinedAt = 3000 \<rparr>),
                metrics := metrics st_ab @
                  [UpdateQueueSize VIDEO
                     (zcard (zadd (snd (zrem (queue st_ab VIDEO) [''a'', ''b''])) 3000 ''a'')),
                   TrackQueueJoin VIDEO] \<rparr>)"
    unfolding a b by simp
  show ?thesis
    using d r u nolock
    by (simp add: f getUserData_def st_ab_queue zrem_def zadd_def)
qed

text \<open>
  Counterexample to C1 as stated: \<open>a\<close> and \<open>b\<close> are the two oldest video entries and the
  sidecar record of \<open>b\<close> is gone. \<open>findMatch\<close> for \<open>a\<close> answers nil, yet the queue is not what
  it was: the entry of \<open>b\<close> is removed and \<open>a\<close> is back with a new score, so exactly one of
  the two oldest entries has been removed.
\<close>

theorem C1_one_of_two_removed_counterexample:
  "queue st_ab VIDEO = [(''a'', 1000), (''b'', 2000)] \<and>
   fst (findMatch ''a'' VIDEO True 3000 st_ab) = None \<and>
   queue (snd (findMatch ''a'' VIDEO True 3000 st_ab)) VIDEO = [(''a'', 3000)]"
  by (simp add: st_ab_def st_a_def qm_defs)

section \<open>Enqueueing\<close>

text \<open>
  Claim C2, as the code has it. \<open>addToQueue\<close> looks for the user in the queue of the
  requested modality only. If the user waits there, the call answers false and leaves the
  store as it was. If the user does not wait there, the call answers true and inserts the
  user with the clock reading as score, whatever the user holds in the other queues, which
  stay as they were. A queue with distinct members keeps distinct members.
\<close>

theorem C2_addToQueue_checks_own_modality:
  "(zscore (queue st m) u \<noteq> None \<longrightarrow> addToQueue u sock m now st = (False, st)) \<and>
   (zscore (queue st m) u = None \<longrightarrow>
      fst (addToQueue u sock m now st) = True \<and>
      zscore (queue (snd (addToQueue u sock m now st)) m) u = Some now \<and>
      (\<forall>m'. m' \<noteq> m \<longrightarrow> queue (snd (addToQueue u sock m now st)) m' = queue st m')) \<and>
   (\<forall>m'. distinct (map fst (queue st m')) \<longrightarrow>
      distinct (map fst (queue (snd (addToQueue u sock m now st)) m')))"
  by (auto simp: addToQueue_def Let_def zscore_zadd_same distinct_zadd split: option.splits)

text \<open>
  Witness for C2: \<open>a\<close> waits in the video queue, which has distinct members; a second
  enqueue into the video queue is refused and changes nothing, and the text queue, where
  \<open>a\<close> does not wait, is untouched by it.
\<close>

theorem C2_addToQueue_checks_own_modality_witness:
  "zscore (queue st_a VIDEO) ''a'' \<noteq> None \<and>
   addToQueue ''a'' ''sa2'' VIDEO 2000 st_a = (False, st_a) \<and>
   zscore (queue st_a TEXT) ''a'' = None \<and> VIDEO \<noteq> TEXT \<and>
   queue (snd (addToQueue ''a'' ''sa2'' TEXT 2000 st_a)) VIDEO = queue st_a VIDEO \<and>
   distinct (map fst (queue st_a VIDEO)) \<and>
   distinct (map fst (queue (snd (addToQueue ''a'' ''sa2'' VIDEO 2000 st_a)) VIDEO))"
proof -
  have h1: "zscore (queue st_a VIDEO) ''a'' \<noteq> None" by (simp add: st_a_queue zscore_def)
  have h2: "zscore (queue st_a TEXT) ''a'' = None" by (simp add: st_a_queue zscore_def)
  have h3: "distinct (map fst (queue st_a VIDEO))" by (simp add: st_a_queue)
  from C2_addToQueue_checks_own_modality [of st_a VIDEO "''a''" "''sa2''" 2000]
    C2_addToQueue_checks_own_modality [of st_a TEXT "''a''" "''sa2''" 2000] h1 h2 h3
  show ?thesis by auto
qed

text \<open>
  Counterexample to C2 as stated: \<open>a\<close> waits in the video queue; an enqueue of \<open>a\<close> into the
  audio queue answers true, and \<open>a\<close> then waits in two queues.
\<close>

theorem C2_second_modality_counterexample:
  "zscore (queue st_a VIDEO) ''a'' = Some 1000 \<and>
   fst (addToQueue ''a'' ''sa2'' AUDIO 2000 st_a) = True \<and>
   zscore (queue (snd (addToQueue ''a'' ''sa2'' AUDIO 2000 st_a)) VIDEO) ''a'' = Some 1000 \<and>
   zscore (queue (snd (addToQueue ''a'' ''sa2'' AUDIO 2000 st_a)) AUDIO) ''a'' = Some 2000"
  by (simp add: st_a_def qm_defs)

section \<open>The shared sidecar key\<close>

text \<open>
  Claim C10. The sidecar record of a user is read, written and deleted under the key made
  from the video queue's prefix and the user id, whatever the modality of the call.
  \<open>removeFromQueue\<close> for modality \<open>m\<close> always deletes that record; it answers false when the
  user has no entry in \<open>m\<close>, and it leaves the queues of the other modalities as they were.
  So a user waiting in another modality stays in that queue and loses the sidecar record.
\<close>

theorem C10_sidecar_key_shared:
  "getUserData u st = userdata st (VIDEO, u) \<and>
   (zscore (queue st m) u = None \<longrightarrow>
      userdata (snd (addToQueue u sock m now st)) =
        (userdata st)((VIDEO, u) \<mapsto> \<lparr> userId = u, socketId = sock, joinedAt = now \<rparr>)) \<and>
   userdata (snd (removeFromQueue u m now' st)) = (userdata st)((VIDEO, u) := None) \<and>
   getUserData u (snd (removeFromQueue u m now' st)) = None \<and>
   (zscore (queue st m) u = None \<longrightarrow> fst (removeFromQueue u m now' st) = False) \<and>
   (\<forall>m'. m' \<noteq> m \<longrightarrow> queue (snd (removeFromQueue u m now' st)) m' = queue st m')"
  by (auto simp: addToQueue_def removeFromQueue_def getUserData_def getQueueSize_def Let_def
        zrem_def zscore_def zrem_count_zero split: option.splits)

text \<open>
  Witness for C10: \<open>a\<close> waits in the video queue and not in the text queue. Removing \<open>a\<close>
  from the text queue answers false, leaves \<open>a\<close> in the video queue and deletes the
  sidecar record of \<open>a\<close>.
\<close>

theorem C10_sidecar_key_shared_witness:
  "zscore (queue st_a TEXT) ''a'' = None \<and> VIDEO \<noteq> TEXT \<and>
   getUserData ''a'' st_a \<noteq> None \<and>
   fst (removeFromQueue ''a'' TEXT 1500 st_a) = False \<and>
   queue (snd (removeFromQueue ''a'' TEXT 1500 st_a)) VIDEO = [(''a'', 1000)] \<and>
   getUserData ''a'' (snd (removeFromQueue ''a'' TEXT 1500 st_a)) = None"
proof -
  have h: "zscore (queue st_a TEXT) ''a'' = None" by (simp add: st_a_queue zscore_def)
  have g: "getUserData ''a'' st_a \<noteq> None" by (simp add: st_a_def qm_defs)
  from C10_sidecar_key_shared [of "''a''" st_a TEXT _ _ 1500] h g show ?thesis
    by (auto simp: st_a_queue)
qed

section \<open>Session records and reverse pointers\<close>







lemma st_session_record:
  "session st_session ''s1'' = Some \<lparr> session_id = ''s1'', sessionType = TEXT, user1Id = ''a'',
     user2Id = ''b'', startedAt = 100 \<rparr>"
  by (simp add: st_session_def createSession_def getActiveSession_def empty_store_def)
















text \<open>
  Claim C5. For a session whose record is in the store, a first \<open>endSession\<close> on which the
  database reports the row updated answers true and removes the record; every later
  \<open>endSession\<close> for that session, whatever the status asked for and whatever the database
  answers, answers false and leaves the store exactly as the first call left it.
\<close>

theorem C5_endSession_idempotent:
  assumes "session st sid = Some d"
  shows "fst (endSession sid status True now st) = True \<and>
    session (snd (endSession sid status True now st)) sid = None \<and>
    (\<forall>status' updated' now'.
       endSession sid status' updated' now' (snd (endSession sid status True now st)) =
         (False, snd (endSession sid status True now st)))"
  using assms by (simp add: endSession_def getSessionById_def Let_def)

text \<open>Witness for C5: the session \<open>s1\<close> of the example state, ended twice.\<close>

theorem C5_endSession_idempotent_witness:
  "session st_session ''s1'' \<noteq> None \<and>
   fst (endSession ''s1'' ENDED True 200 st_session) = True \<and>
   endSession ''s1'' ENDED True 300 (snd (endSession ''s1'' ENDED True 200 st_session)) =
     (False, snd (endSession ''s1'' ENDED True 200 st_session))"
  using C5_endSession_idempotent [OF st_session_record, of ENDED 200] st_session_record
  by simp

section \<open>Re-enqueueing after a failed session creation\<close>

lemma findMatch_Some:
  assumes "distinct (map fst (queue st t))" and "findMatch uid t lock now st = (Some p, st1)"
  shows "\<exists>a b. zrange (queue st t) 0 1 = [a, b] \<and> a \<noteq> b \<and> (uid = a \<or> uid = b) \<and>
     getUserData (if a = uid then b else a) st = Some p \<and>
     st1 = st\<lparr> queue := (queue st)(t := snd (zrem (queue st t) [a, b])),
               metrics := metrics st @
                 [UpdateQueueSize t (zcard (snd (zrem (queue st t) [a, b]))),
                  TrackQueueLeave t ''matched''] \<rparr>"
proof -
  from assms(2) have g: "lock" "\<not> length (zrange (queue st t) 0 1) < 2"
    "uid \<in> set (zrange (queue st t) 0 1)"
    by (auto simp: findMatch_def Let_def split: if_splits)
  then obtain a b where ab: "zrange (queue st t) 0 1 = [a, b]"
    using zrange_short [of "queue st t"] by auto
  from zrange_two [OF ab] assms(1) have ne: "a \<noteq> b" by auto
  from g ab have mem: "uid = a \<or> uid = b" by auto
  from assms(2) have "getUserData (if a = uid then b else a) st = Some p \<and>
     st1 = st\<lparr> queue := (queue st)(t := snd (zrem (queue st t) [a, b])),
               metrics := metrics st @
                 [UpdateQueueSize t (zcard (snd (zrem (queue st t) [a, b]))),
                  TrackQueueLeave t ''matched''] \<rparr>"
    unfolding findMatch_in_top_two [OF g(1) ab mem] by (auto split: option.splits)
  with ab ne mem show ?thesis by blast
qed

lemma getActiveSession_frame:
  "queue (snd (getActiveSession u st)) = queue st \<and>
   userdata (snd (getActiveSession u st)) = userdata st \<and>
   metrics (snd (getActiveSession u st)) = metrics st"
  by (simp add: getActiveSession_def split: option.splits)

lemma createSession_None_frame:
  assumes "createSession t u1 u2 created now st = (None, st2)"
  shows "queue st2 = queue st \<and> userdata st2 = userdata st \<and> metrics st2 = metrics st"
  using assms getActiveSession_frame [of u1 st]
    getActiveSession_frame [of u2 "snd (getActiveSession u1 st)"]
  by (auto simp: createSession_def Let_def split: prod.splits option.splits if_splits)

lemma isUserInQueue_present: "zscore (queue st t) u \<noteq> None \<Longrightarrow> isUserInQueue u st \<noteq> None"
  by (cases t) (auto simp: isUserInQueue_def split: option.splits)

lemma addToQueue_True:
  assumes "addToQueue u sock t now st = (True, st')"
  shows "zscore (queue st t) u = None \<and>
     st' = st\<lparr> userdata := (userdata st)((VIDEO, u) \<mapsto>
                 \<lparr> userId = u, socketId = sock, joinedAt = now \<rparr>),
              queue := (queue st)(t := zadd (queue st t) now u),
              metrics := metrics st @ [UpdateQueueSize t (zcard (zadd (queue st t) now u)),
                 TrackQueueJoin t] \<rparr>"
  using assms by (auto simp: addToQueue_def Let_def getQueueSize_def split: option.splits)

lemma addToQueue_absent:
  assumes "zscore (queue st t) u = None"
  shows "addToQueue u sock t now st = (True,
     st\<lparr> userdata := (userdata st)((VIDEO, u) \<mapsto>
                 \<lparr> userId = u, socketId = sock, joinedAt = now \<rparr>),
              queue := (queue st)(t := zadd (queue st t) now u),
              metrics := metrics st @ [UpdateQueueSize t (zcard (zadd (queue st t) now u)),
                 TrackQueueJoin t] \<rparr>)"
  using assms by (auto simp: addToQueue_def Let_def getQueueSize_def split: option.splits)

text \<open>
  Claim C4, as the code has it. In a run of \<open>quickMatch\<close> where the caller joins the queue,
  the pair extraction answers a partner and \<open>createSession\<close> then answers nil: the result
  reports failure; the caller and the partner are back in the queue of the same modality,
  the caller with the clock reading of its re-insertion as score and an empty socket id,
  the partner with the clock reading of its own re-insertion and its old socket id; the
  scores they had before are not kept. The other queues are as they were, and the last
  metric recorded is the error of the matching subsystem.
\<close>

theorem C4_requeue_with_fresh_scores:
  assumes ok: "sidecar_ok st" "distinct (map fst (queue st t))"
    and added: "addToQueue uid sock t now st = (True, st0)"
    and found: "findMatch uid t (lock_acquired env) (at_reinsert env) st0 = (Some p, st1)"
    and nosess: "createSession t uid (userId p) (db_created env) (at_session env) st1 = (None, st2)"
    and run: "quickMatch uid sock t now env st = (r, st')"
  shows "r = failure ''Waiting for match'' \<and> userId p \<noteq> uid \<and>
     zscore (queue st0 t) (userId p) = zscore (queue st t) (userId p) \<and>
     zscore (queue st0 t) (userId p) \<noteq> None \<and>
     zscore (queue st0 t) uid = Some now \<and>
     zscore (queue st' t) uid = Some (at_readd_self env) \<and>
     zscore (queue st' t) (userId p) = Some (at_readd_partner env) \<and>
     getUserData uid st' = Some \<lparr> userId = uid, socketId = [], joinedAt = at_readd_self env \<rparr> \<and>
     getUserData (userId p) st' =
       Some \<lparr> userId = userId p, socketId = socketId p, joinedAt = at_readd_partner env \<rparr> \<and>
     (\<forall>t'. t' \<noteq> t \<longrightarrow> queue st' t' = queue st t') \<and>
     last (metrics st') = TrackError ''matching'' ''session_creation_failed''"
proof -
  from addToQueue_True [OF added] have a0: "zscore (queue st t) uid = None"
    and st0: "st0 = st\<lparr> userdata := (userdata st)((VIDEO, uid) \<mapsto>
                 \<lparr> userId = uid, socketId = sock, joinedAt = now \<rparr>),
              queue := (queue st)(t := zadd (queue st t) now uid),
              metrics := metrics st @ [UpdateQueueSize t (zcard (zadd (queue st t) now uid)),
                 TrackQueueJoin t] \<rparr>" by auto
  have q0: "queue st0 t = zadd (queue st t) now uid" by (simp add: st0)
  have d0: "distinct (map fst (queue st0 t))" using ok(2) by (simp add: q0 distinct_zadd)
  have in0: "zscore (queue st0 t) uid = Some now" by (simp add: q0 zscore_zadd_same)
  have sc0: "sidecar_ok st0" using ok(1) by (auto simp: sidecar_ok_def st0)
  from findMatch_Some [OF d0 found] obtain a b where
    ab: "zrange (queue st0 t) 0 1 = [a, b]" "a \<noteq> b" "uid = a \<or> uid = b"
    and pd: "getUserData (if a = uid then b else a) st0 = Some p"
    and st1: "st1 = st0\<lparr> queue := (queue st0)(t := snd (zrem (queue st0 t) [a, b])),
               metrics := metrics st0 @
                 [UpdateQueueSize t (zcard (snd (zrem (queue st0 t) [a, b]))),
                  TrackQueueLeave t ''matched''] \<rparr>"
    by blast
  define pid where "pid = (if a = uid then b else a)"
  from pd sc0 have pid: "userId p = pid" by (auto simp: sidecar_ok_def getUserData_def pid_def)
  from ab have pne: "pid \<noteq> uid" by (auto simp: pid_def)
  from ab have pin: "pid \<in> set [a, b]" "uid \<in> set [a, b]" by (auto simp: pid_def)
  from zrange_two [OF ab(1)]
  have "zscore (queue st0 t) a \<noteq> None \<and> zscore (queue st0 t) b \<noteq> None"
    using ab(2) by (auto simp: zscore_def)
  then have porig: "zscore (queue st0 t) pid \<noteq> None" by (simp add: pid_def)
  have psame: "zscore (queue st0 t) pid = zscore (queue st t) pid"
    using pne by (simp add: q0 zscore_zadd_other)
  have q1: "queue st1 t = snd (zrem (queue st0 t) [a, b])" by (simp add: st1)
  from createSession_None_frame [OF nosess]
  have fr: "queue st2 = queue st1" "userdata st2 = userdata st1"
    by auto
  have u2: "zscore (queue st2 t) uid = None" using pin by (simp add: fr q1 zscore_zrem_in)
  define st3 where "st3 = snd (addToQueue uid [] t (at_readd_self env) st2)"
  have st3: "st3 = st2\<lparr> userdata := (userdata st2)((VIDEO, uid) \<mapsto>
                 \<lparr> userId = uid, socketId = [], joinedAt = at_readd_self env \<rparr>),
              queue := (queue st2)(t := zadd (queue st2 t) (at_readd_self env) uid),
              metrics := metrics st2 @
                [UpdateQueueSize t (zcard (zadd (queue st2 t) (at_readd_self env) uid)),
                 TrackQueueJoin t] \<rparr>"
    unfolding st3_def by (simp add: addToQueue_absent [OF u2])
  have p3: "zscore (queue st3 t) pid = None"
    using pne pin by (simp add: st3 zscore_zadd_other fr q1 zscore_zrem_in)
  define st4 where "st4 = snd (addToQueue pid (socketId p) t (at_readd_partner env) st3)"
  have st4: "st4 = st3\<lparr> userdata := (userdata st3)((VIDEO, pid) \<mapsto>
                 \<lparr> userId = pid, socketId = socketId p, joinedAt = at_readd_partner env \<rparr>),
              queue := (queue st3)(t := zadd (queue st3 t) (at_readd_partner env) pid),
              metrics := metrics st3 @
                [UpdateQueueSize t (zcard (zadd (queue st3 t) (at_readd_partner env) pid)),
                 TrackQueueJoin t] \<rparr>"
    unfolding st4_def by (simp add: addToQueue_absent [OF p3])
  have inq: "isUserInQueue uid st0 \<noteq> None"
    using in0 isUserInQueue_present [of st0 t uid] by simp
  have res: "r = failure ''Waiting for match''"
    and fin: "st' = st4\<lparr> metrics := metrics st4 @
                [TrackError ''matching'' ''session_creation_failed''] \<rparr>"
    using run added found nosess inq
    by (auto simp: quickMatch_def matchUser_def Let_def st4_def st3_def pid failure_def
          split: option.splits)
  have oth: "\<forall>t'. t' \<noteq> t \<longrightarrow> queue st' t' = queue st t'"
    by (simp add: fin st4 st3 fr st1 st0)
  show ?thesis
    using res pne pid psame porig in0 oth
    by (simp add: fin st4 st3 zscore_zadd_same zscore_zadd_other getUserData_def)
qed


lemma addToQueue_session_frame:
  "session_user (snd (addToQueue u s t now st)) = session_user st"
  by (simp add: addToQueue_def Let_def split: option.splits)

lemma findMatch_session_frame:
  "session_user (snd (findMatch u t lock now st)) = session_user st"
  by (simp add: findMatch_def Let_def case_prod_unfold addToQueue_session_frame
        split: option.splits)

lemma st_a_userdata: "userdata st_a = [(VIDEO, ''a'') \<mapsto> data_a]"
  by (simp add: st_a_def data_a_def qm_defs)

lemma st_join_queue: "queue st_join VIDEO = [(''a'', 1000), (''b'', 2000)]"
  by (simp add: st_join_def st_a_def qm_defs)

lemma st_join_added: "addToQueue ''b'' ''sb'' VIDEO 2000 st_a = (True, st_join)"
  by (simp add: st_join_def st_a_def qm_defs)

lemma st_join_top: "zrange (queue st_join VIDEO) 0 1 = [''a'', ''b'']"
  by (simp add: st_join_queue zrange_def)

lemma st_join_data: "getUserData ''a'' st_join = Some data_a"
  by (simp add: st_join_def st_a_def data_a_def qm_defs)

lemma st_join_found: "findMatch ''b'' VIDEO True 2001 st_join = (Some data_a, st_found)"
proof -
  have "fst (findMatch ''b'' VIDEO True 2001 st_join) = Some data_a"
    by (simp add: findMatch_in_top_two [OF _ st_join_top] st_join_data)
  then show ?thesis by (simp add: st_found_def prod_eq_iff)
qed

lemma st_found_queue: "queue st_found VIDEO = []"
  unfolding st_found_def
  by (simp add: findMatch_in_top_two [OF _ st_join_top] st_join_data st_join_queue zrem_def)

lemma st_found_nosession:
  "createSession VIDEO ''b'' ''a'' None 2002 st_found = (None, st_found)"
proof -
  have "session_user st_found = Map.empty"
    by (simp add: st_found_def st_join_def st_a_def findMatch_session_frame
          addToQueue_session_frame empty_store_def)
  then show ?thesis by (simp add: createSession_def getActiveSession_def)
qed

lemma st_join_inqueue: "isUserInQueue ''b'' st_join = Some VIDEO"
  by (simp add: isUserInQueue_def st_join_queue zscore_def)

lemma quickMatch_b:
  "quickMatch ''b'' ''sb'' VIDEO 2000 env_db_down st_a =
     (failure ''Waiting for match'',
      (snd (addToQueue ''a'' ''sa'' VIDEO 3001 (snd (addToQueue ''b'' [] VIDEO 3000 st_found))))
        \<lparr> metrics := metrics (snd (addToQueue ''a'' ''sa'' VIDEO 3001
             (snd (addToQueue ''b'' [] VIDEO 3000 st_found)))) @
             [TrackError ''matching'' ''session_creation_failed''] \<rparr>)"
  by (simp add: quickMatch_def matchUser_def st_join_added st_join_inqueue st_join_found
        st_found_nosession env_db_down_def data_a_def Let_def failure_def)

lemma quickMatch_b_queue:
  "queue (snd (quickMatch ''b'' ''sb'' VIDEO 2000 env_db_down st_a)) VIDEO
     = [(''b'', 3000), (''a'', 3001)]"
  by (simp add: quickMatch_b addToQueue_def Let_def st_found_queue zscore_def zadd_def
        zbefore_def getQueueSize_def)


text \<open>
  Witness for C4: \<open>b\<close> joins the video queue behind \<open>a\<close>, is paired with \<open>a\<close>, and the
  database makes no session row. Both are back in the video queue, \<open>b\<close> with score 3000
  and \<open>a\<close> with score 3001.
\<close>

theorem C4_requeue_with_fresh_scores_witness:
  "sidecar_ok st_a \<and> distinct (map fst (queue st_a VIDEO)) \<and>
   fst (addToQueue ''b'' ''sb'' VIDEO 2000 st_a) = True \<and>
   fst (findMatch ''b'' VIDEO True 2001 st_join) = Some data_a \<and>
   fst (createSession VIDEO ''b'' ''a'' None 2002 st_found) = None \<and>
   fst (quickMatch ''b'' ''sb'' VIDEO 2000 env_db_down st_a) = failure ''Waiting for match'' \<and>
   zscore (queue (snd (quickMatch ''b'' ''sb'' VIDEO 2000 env_db_down st_a)) VIDEO) ''b''
     = Some 3000 \<and>
   zscore (queue (snd (quickMatch ''b'' ''sb'' VIDEO 2000 env_db_down st_a)) VIDEO) ''a''
     = Some 3001"
proof -
  have ok1: "sidecar_ok st_a" using st_a_ok by (simp add: qm_ok_def)
  have ok2: "distinct (map fst (queue st_a VIDEO))" by (simp add: st_a_queue)
  have f: "findMatch ''b'' VIDEO (lock_acquired env_db_down) (at_reinsert env_db_down) st_join
      = (Some data_a, st_found)"
    using st_join_found by (simp add: env_db_down_def)
  have c: "createSession VIDEO ''b'' (userId data_a) (db_created env_db_down)
      (at_session env_db_down) st_found = (None, st_found)"
    using st_found_nosession by (simp add: env_db_down_def data_a_def)
  have r: "quickMatch ''b'' ''sb'' VIDEO 2000 env_db_down st_a =
      (fst (quickMatch ''b'' ''sb'' VIDEO 2000 env_db_down st_a),
       snd (quickMatch ''b'' ''sb'' VIDEO 2000 env_db_down st_a))"
    by simp
  note th = C4_requeue_with_fresh_scores [OF ok1 ok2 st_join_added f c r]
  have e: "at_readd_self env_db_down = 3000" "at_readd_partner env_db_down = 3001"
    "userId data_a = ''a''"
    by (simp_all add: env_db_down_def data_a_def)
  from th have "fst (quickMatch ''b'' ''sb'' VIDEO 2000 env_db_down st_a)
        = failure ''Waiting for match'' \<and>
      zscore (queue (snd (quickMatch ''b'' ''sb'' VIDEO 2000 env_db_down st_a)) VIDEO) ''b''
        = Some 3000 \<and>
      zscore (queue (snd (quickMatch ''b'' ''sb'' VIDEO 2000 env_db_down st_a)) VIDEO) ''a''
        = Some 3001"
    unfolding e by blast
  with ok1 ok2 show ?thesis
    by (simp add: st_join_added st_join_found st_found_nosession)
qed

text \<open>
  Counterexample to C4 as stated: \<open>a\<close> joined at 1000 and is first in the video queue,
  \<open>b\<close> joins at 2000. The pair is extracted and the session creation fails. Afterwards
  \<open>a\<close> has score 3001 and stands second, behind \<open>b\<close> with score 3000: neither score is
  the original one, and \<open>a\<close> has lost its place.
\<close>

theorem C4_scores_not_kept_counterexample:
  "queue st_join VIDEO = [(''a'', 1000), (''b'', 2000)] \<and>
   getQueuePosition ''a'' VIDEO st_join = 1 \<and>
   fst (findMatch ''b'' VIDEO True 2001 st_join) = Some data_a \<and>
   fst (createSession VIDEO ''b'' ''a'' None 2002 st_found) = None \<and>
   success (fst (quickMatch ''b'' ''sb'' VIDEO 2000 env_db_down st_a)) = False \<and>
   queue (snd (quickMatch ''b'' ''sb'' VIDEO 2000 env_db_down st_a)) VIDEO
     = [(''b'', 3000), (''a'', 3001)] \<and>
   getQueuePosition ''a'' VIDEO (snd (quickMatch ''b'' ''sb'' VIDEO 2000 env_db_down st_a)) = 2"
proof -
  have s: "success (fst (quickMatch ''b'' ''sb'' VIDEO 2000 env_db_down st_a)) = False"
    by (simp add: quickMatch_b failure_def)
  show ?thesis
    by (simp add: s quickMatch_b_queue st_join_queue st_join_found st_found_nosession
          getQueuePosition_def)
qed


section \<open>Chat and signaling relay\<close>

lemma sm_ab_sockets: "userSockets sm_ab = [''a'' \<mapsto> [''sock-a''], ''b'' \<mapsto> [''sock-b'']]"
  by (auto simp: sm_ab_def registerSocket_def sock_a_def sock_b_def set_add_def Let_def)

lemma st_session_partner: "getSessionPartner ''a'' st_session = (Some ''b'', st_session)"
  by (simp add: getSessionPartner_def getActiveSession_def st_session_def createSession_def
        empty_store_def)

lemma empty_store_partner: "getSessionPartner u empty_store = (None, empty_store)"
  by (simp add: getSessionPartner_def getActiveSession_def empty_store_def)

lemma getSessionPartner_frame:
  "queue (snd (getSessionPartner u st)) = queue st \<and>
   userdata (snd (getSessionPartner u st)) = userdata st \<and>
   session (snd (getSessionPartner u st)) = session st \<and>
   presence (snd (getSessionPartner u st)) = presence st \<and>
   published (snd (getSessionPartner u st)) = published st \<and>
   metrics (snd (getSessionPartner u st)) = metrics st \<and>
   (session_user (snd (getSessionPartner u st)) = session_user st \<or>
    session_user (snd (getSessionPartner u st)) = (session_user st)(u := None))"
  by (simp add: getSessionPartner_def getActiveSession_def split: option.splits)

text \<open>
  Claim C6, as the code has it. A chat text that is empty or is white space only, or is
  longer than 1000 code units, or comes from a sender for whom no partner is found, is
  answered with one error event on the sender's socket and nothing else goes out.
  Otherwise the text goes out to each registered socket of the partner, and to no other
  socket, with the text, the clock reading and the sender's id. The handler writes nothing
  to the queues, the sidecar records, the session records or the presence records; the
  reverse pointers change only as the partner lookup itself changes them.
\<close>

theorem C6_chat_message_relay:
  assumes "on_CHAT_MESSAGE socket message now sm st = (out, st')"
  shows
  "((message = [] \<or> trim message = [] \<or> length message > 1000 \<or>
     fst (getSessionPartner (socket_userId socket) st) = None \<or>
     fst (getSessionPartner (socket_userId socket) st) = Some []) \<longrightarrow>
      (\<exists>msg. out = [Emit (socket_id socket) ERROR (Message msg)])) \<and>
   (\<forall>pid. message \<noteq> [] \<and> trim message \<noteq> [] \<and> length message \<le> 1000 \<and>
      fst (getSessionPartner (socket_userId socket) st) = Some pid \<and> pid \<noteq> [] \<longrightarrow>
      out = map (\<lambda>s. Emit s CHAT_MESSAGE (ChatMessage message now (socket_userId socket)))
              (getUserSockets sm pid)) \<and>
   queue st' = queue st \<and> userdata st' = userdata st \<and> session st' = session st \<and>
   presence st' = presence st \<and> published st' = published st \<and>
   (session_user st' = session_user st \<or>
    session_user st' = (session_user st)(socket_userId socket := None))"
  using assms getSessionPartner_frame [of "socket_userId socket" st]
  by (auto simp: on_CHAT_MESSAGE_def socket_emit_def emitToUser_def
        split: prod.splits option.splits if_splits)

text \<open>
  Witness for C6: in the session of \<open>a\<close> and \<open>b\<close> the text \<^verbatim>\<open>hi\<close> from \<open>a\<close> goes to the socket
  of \<open>b\<close>; on the empty store, where \<open>a\<close> has no session, the same text is answered with an
  error event on the socket of \<open>a\<close>.
\<close>

theorem C6_chat_message_relay_witness:
  "[0x68, 0x69] \<noteq> ([] :: jsstring) \<and> trim [0x68, 0x69] \<noteq> [] \<and>
   length ([0x68, 0x69] :: jsstring) \<le> 1000 \<and>
   fst (getSessionPartner (socket_userId sock_a) st_session) = Some ''b'' \<and>
   fst (on_CHAT_MESSAGE sock_a [0x68, 0x69] 500 sm_ab st_session) =
     [Emit ''sock-b'' CHAT_MESSAGE (ChatMessage [0x68, 0x69] 500 ''a'') :: unit emission] \<and>
   fst (getSessionPartner (socket_userId sock_a) empty_store) = None \<and>
   fst (on_CHAT_MESSAGE sock_a [0x68, 0x69] 500 sm_ab empty_store) =
     [Emit ''sock-a'' ERROR (Message ''No active session'') :: unit emission]"
proof -
  have t: "trim [0x68, 0x69] \<noteq> []" by (simp add: trim_def isWhiteSpace_def)
  have p: "fst (getSessionPartner (socket_userId sock_a) st_session) = Some ''b''"
    by (simp add: sock_a_def st_session_partner)
  have n: "fst (getSessionPartner (socket_userId sock_a) empty_store) = None"
    by (simp add: empty_store_partner)
  have g: "getUserSockets sm_ab ''b'' = [''sock-b'']"
    by (simp add: getUserSockets_def sm_ab_sockets)
  have r: "on_CHAT_MESSAGE sock_a [0x68, 0x69] 500 sm_ab st_session =
      (fst (on_CHAT_MESSAGE sock_a [0x68, 0x69] 500 sm_ab st_session :: unit emission list \<times> store),
       snd (on_CHAT_MESSAGE sock_a [0x68, 0x69] 500 sm_ab st_session :: unit emission list \<times> store))"
    by simp
  from C6_chat_message_relay [OF r] t p g
  have d: "fst (on_CHAT_MESSAGE sock_a [0x68, 0x69] 500 sm_ab st_session) =
     [Emit ''sock-b'' CHAT_MESSAGE (ChatMessage [0x68, 0x69] 500 ''a'') :: unit emission]"
    by (simp add: sock_a_def)
  have e: "fst (on_CHAT_MESSAGE sock_a [0x68, 0x69] 500 sm_ab empty_store) =
     [Emit ''sock-a'' ERROR (Message ''No active session'') :: unit emission]"
    using t by (simp add: on_CHAT_MESSAGE_def empty_store_partner socket_emit_def sock_a_def)
  from t p n d e show ?thesis by simp
qed

text \<open>
  Counterexample to C6 as stated: \<open>a\<close> is in a session with \<open>b\<close> and sends a text of one
  space. The text is not empty and not longer than 1000, and the sender has a partner, yet
  the text is not delivered: \<open>a\<close> gets the error event.
\<close>

theorem C6_blank_text_counterexample:
  "[0x20] \<noteq> ([] :: jsstring) \<and> length ([0x20] :: jsstring) \<le> 1000 \<and>
   fst (getSessionPartner (socket_userId sock_a) st_session) = Some ''b'' \<and>
   getUserSockets sm_ab ''b'' = [''sock-b''] \<and>
   fst (on_CHAT_MESSAGE sock_a [0x20] 500 sm_ab st_session) =
     [Emit ''sock-a'' ERROR (Message ''Message cannot be empty'') :: unit emission]"
  by (simp add: on_CHAT_MESSAGE_def trim_def isWhiteSpace_def socket_emit_def sock_a_def
        st_session_partner getUserSockets_def sm_ab_sockets)

text \<open>
  Claim C7, as the code has it. From a sender for whom no partner is found, an ICE
  candidate is dropped without any event, while an offer and an answer are not relayed
  either but are each answered with a \<^verbatim>\<open>call:error\<close> event on the sender's socket. When a
  partner is found, the blob goes out unchanged, with the sender's id, to each registered
  socket of the partner. The blob is of an arbitrary type, so no handler can depend on
  what is in it. The store is left as the partner lookup leaves it.
\<close>

theorem C7_signal_relay:
  "((fst (getSessionPartner (socket_userId socket) st) = None \<or>
     fst (getSessionPartner (socket_userId socket) st) = Some []) \<longrightarrow>
      fst (on_CALL_ICE_CANDIDATE socket (blob :: 'p) sm st) = [] \<and>
      fst (on_CALL_OFFER socket blob sm st) =
        [Emit (socket_id socket) CALL_ERROR (Message ''No active session'')] \<and>
      fst (on_CALL_ANSWER socket blob sm st) =
        [Emit (socket_id socket) CALL_ERROR (Message ''No active session'')]) \<and>
   (\<forall>pid. fst (getSessionPartner (socket_userId socket) st) = Some pid \<and> pid \<noteq> [] \<longrightarrow>
      fst (on_CALL_OFFER socket blob sm st) =
        map (\<lambda>s. Emit s CALL_OFFER (Offer blob (socket_userId socket))) (getUserSockets sm pid) \<and>
      fst (on_CALL_ANSWER socket blob sm st) =
        map (\<lambda>s. Emit s CALL_ANSWER (Answer blob (socket_userId socket))) (getUserSockets sm pid) \<and>
      fst (on_CALL_ICE_CANDIDATE socket blob sm st) =
        map (\<lambda>s. Emit s CALL_ICE_CANDIDATE (Candidate blob (socket_userId socket)))
          (getUserSockets sm pid)) \<and>
   snd (on_CALL_OFFER socket blob sm st) = snd (getSessionPartner (socket_userId socket) st) \<and>
   snd (on_CALL_ANSWER socket blob sm st) = snd (getSessionPartner (socket_userId socket) st) \<and>
   snd (on_CALL_ICE_CANDIDATE socket blob sm st) =
     snd (getSessionPartner (socket_userId socket) st)"
  by (auto simp: on_CALL_OFFER_def on_CALL_ANSWER_def on_CALL_ICE_CANDIDATE_def socket_emit_def
        emitToUser_def split: prod.splits option.splits)

text \<open>
  Witness for C7: on the empty store \<open>a\<close> has no partner and its ICE candidate is dropped
  without an event; in the session of \<open>a\<close> and \<open>b\<close> the offer of \<open>a\<close> goes to the socket
  of \<open>b\<close>.
\<close>

theorem C7_signal_relay_witness:
  "fst (getSessionPartner (socket_userId sock_a) empty_store) = None \<and>
   fst (on_CALL_ICE_CANDIDATE sock_a ''candidate:1'' sm_ab empty_store) = [] \<and>
   fst (getSessionPartner (socket_userId sock_a) st_session) = Some ''b'' \<and>
   fst (on_CALL_OFFER sock_a ''v=0'' sm_ab st_session) =
     [Emit ''sock-b'' CALL_OFFER (Offer ''v=0'' ''a'')]"
proof -
  have n: "fst (getSessionPartner (socket_userId sock_a) empty_store) = None"
    by (simp add: empty_store_partner)
  have p: "fst (getSessionPartner (socket_userId sock_a) st_session) = Some ''b''"
    by (simp add: sock_a_def st_session_partner)
  have g: "getUserSockets sm_ab ''b'' = [''sock-b'']"
    by (simp add: getUserSockets_def sm_ab_sockets)
  from C7_signal_relay [where 'p = string, of sock_a empty_store "''candidate:1''" sm_ab] n
  have i: "fst (on_CALL_ICE_CANDIDATE sock_a ''candidate:1'' sm_ab empty_store) = []"
    by simp
  from C7_signal_relay [where 'p = string, of sock_a st_session "''v=0''" sm_ab] p g
  have "fst (on_CALL_OFFER sock_a ''v=0'' sm_ab st_session) =
     [Emit ''sock-b'' CALL_OFFER (Offer ''v=0'' ''a'')]"
    by (simp add: sock_a_def)
  with n i p show ?thesis by simp
qed

text \<open>
  Counterexample to C7 as stated: \<open>a\<close> has no session and sends an offer. The offer is not
  relayed, but it is not dropped silently: a \<^verbatim>\<open>call:error\<close> event goes back to \<open>a\<close>.
\<close>

theorem C7_offer_error_counterexample:
  "fst (getSessionPartner (socket_userId sock_a) empty_store) = None \<and>
   fst (on_CALL_OFFER sock_a ''v=0'' sm_ab empty_store) =
     [Emit ''sock-a'' CALL_ERROR (Message ''No active session'')] \<and>
   fst (on_CALL_ANSWER sock_a ''v=0'' sm_ab empty_store) =
     [Emit ''sock-a'' CALL_ERROR (Message ''No active session'')]"
  by (simp add: on_CALL_OFFER_def on_CALL_ANSWER_def empty_store_partner socket_emit_def
        sock_a_def)

section \<open>Presence on disconnect\<close>

text \<open>
  The registry marks a user offline only when it unregisters the user's last socket: with
  another socket of the user still registered, the store is left as it was.
\<close>

lemma unregisterSocket_other_socket_left:
  assumes "userSockets sm (socket_userId socket) = Some sockets"
    and "removeAll (socket_id socket) sockets \<noteq> []"
  shows "snd (unregisterSocket socket sm st) = st"
  using assms by (simp add: unregisterSocket_def Let_def)

lemma unregisterSocket_last_socket:
  assumes "userSockets sm (socket_userId socket) = Some sockets"
    and "removeAll (socket_id socket) sockets = []"
  shows "snd (unregisterSocket socket sm st) = setUserOffline (socket_userId socket) st"
  using assms by (simp add: unregisterSocket_def Let_def)

lemma cleanupUserSession_offline: "\<not> isUserOnline uid (cleanupUserSession uid updated now st)"
  by (simp add: cleanupUserSession_def isUserOnline_def setUserOffline_def Let_def)

text \<open>
  Claim C8 against the disconnect path of the WebSocket server. User \<open>a\<close> is connected
  with two sockets and is marked online. The first socket disconnects: the second is
  still among the active connections, and the cleanup has marked \<open>a\<close> offline all the same.
\<close>

theorem C8_disconnect_marks_offline_with_socket_left:
  "ws_activeConnections (fst (handleDisconnection sock_a True 900 ws_two st_online)) ''sock-a2''
     = Some sock_a2 \<and>
   socket_userId sock_a2 = socket_userId sock_a \<and>
   isUserOnline ''a'' st_online \<and>
   \<not> isUserOnline ''a'' (snd (handleDisconnection sock_a True 900 ws_two st_online))"
  by (simp add: handleDisconnection_def cleanupUserSession_def setUserOffline_def isUserOnline_def
        ws_two_def st_online_def setUserOnline_def sock_a_def sock_a2_def Let_def)

section \<open>Least loaded instance\<close>

lemma hd_sort_key_first_min:
  "xs \<noteq> [] \<Longrightarrow> \<exists>pre post. xs = pre @ hd (sort_key f xs) # post \<and>
     (\<forall>j\<in>set pre. f (hd (sort_key f xs)) < f j) \<and>
     (\<forall>j\<in>set post. f (hd (sort_key f xs)) \<le> f j)"
proof (induction xs)
  case Nil
  then show ?case by simp
next
  case (Cons x xs)
  show ?case
  proof (cases "xs = []")
    case True
    then show ?thesis by (intro exI [of _ "[]"]) simp
  next
    case False
    define m where "m = hd (sort_key f xs)"
    from Cons.IH [OF False] obtain pre post where
      d: "xs = pre @ m # post" "\<forall>j\<in>set pre. f m < f j" "\<forall>j\<in>set post. f m \<le> f j"
      unfolding m_def by blast
    from False have ne: "sort_key f xs \<noteq> []" by (metis length_0_conv length_sort)
    then obtain r where s: "sort_key f xs = m # r" unfolding m_def by (cases "sort_key f xs") auto
    show ?thesis
    proof (cases "f x \<le> f m")
      case True
      then have h: "hd (sort_key f (x # xs)) = x" by (simp add: s)
      have "\<forall>j\<in>set xs. f x \<le> f j"
        using d True by (subst d(1)) (auto intro: order_trans less_imp_le)
      with h show ?thesis by (intro exI [of _ "[]"] exI [of _ xs]) simp
    next
      case False
      then have h: "hd (sort_key f (x # xs)) = m" by (simp add: s)
      from False d show ?thesis
        unfolding h by (intro exI [of _ "x # pre"] exI [of _ post]) auto
    qed
  qed
qed

lemma sort_key_pairs:
  "sort_key snd (map (\<lambda>i. (i, g i)) xs) = map (\<lambda>i. (i, g i)) (sort_key g xs)"
proof (induction xs)
  case Nil
  then show ?case by simp
next
  case (Cons x xs)
  have ins: "\<And>ys. insort_key snd (x, g x) (map (\<lambda>i. (i, g i)) ys) =
      map (\<lambda>i. (i, g i)) (insort_key g x ys)"
  proof -
    fix ys show "insort_key snd (x, g x) (map (\<lambda>i. (i, g i)) ys) =
      map (\<lambda>i. (i, g i)) (insort_key g x ys)"
      by (induction ys) auto
  qed
  from Cons ins show ?case by simp
qed

text \<open>
  Claim C9, as the code has it. \<open>getLeastLoadedInstance\<close> answers nil exactly when there is
  no healthy instance. Otherwise it answers a healthy instance together with its score, as
  computed in double arithmetic; no healthy instance has a smaller computed score, and
  every healthy instance scanned before it has a strictly greater one. Among instances of
  equal least computed score the answer is thus the first in scan order; the heartbeat
  takes no part in the choice.
\<close>

theorem C9_least_loaded_first_minimum:
  "(getLeastLoadedInstance now scan = None \<longleftrightarrow> getHealthyInstances now scan = []) \<and>
   (\<forall>i s. getLeastLoadedInstance now scan = Some (i, s) \<longrightarrow>
      s = loadScore i \<and>
      (\<exists>pre post. getHealthyInstances now scan = pre @ i # post \<and>
          (\<forall>j\<in>set pre. loadScore i < loadScore j) \<and>
          (\<forall>j\<in>set post. loadScore i \<le> loadScore j)))"
proof (cases "getHealthyInstances now scan = []")
  case True
  then show ?thesis by (simp add: getLeastLoadedInstance_def)
next
  case False
  define hs where "hs = getHealthyInstances now scan"
  define m where "m = hd (sort_key loadScore hs)"
  from False have ne: "hs \<noteq> []" by (simp add: hs_def)
  then have "sort_key loadScore hs \<noteq> []" by (metis length_0_conv length_sort)
  then have nth: "sort_key loadScore hs ! 0 = m" unfolding m_def by (simp add: hd_conv_nth)
  have r: "getLeastLoadedInstance now scan = Some (m, loadScore m)"
    using ne nth \<open>sort_key loadScore hs \<noteq> []\<close>
    by (simp add: getLeastLoadedInstance_def Let_def hs_def [symmetric] sort_key_pairs)
  from hd_sort_key_first_min [OF ne, of loadScore] have
    "\<exists>pre post. hs = pre @ m # post \<and> (\<forall>j\<in>set pre. loadScore m < loadScore j) \<and>
       (\<forall>j\<in>set post. loadScore m \<le> loadScore j)"
    unfolding m_def .
  with r False show ?thesis by (auto simp: hs_def)
qed

lemma binade_numeral:
  "binade (numeral k) x e =
     (if 2 \<le> x then binade (pred_numeral k) (x / 2) (e + 1)
      else if x < 1 then binade (pred_numeral k) (x * 2) (e - 1)
      else e)"
  by (simp add: numeral_eq_Suc)

lemmas double_defs = toDouble_def binade_numeral pow2_def roundTiesToEven_def Let_def

text \<open>The doubles of the two weights, and the computed scores of the example records.\<close>

lemma toDouble_literals:
  "toDouble 0.4 = 3602879701896397 / 9007199254740992"
  "toDouble 0.3 = 5404319552844595 / 18014398509481984"
  by (simp_all add: double_defs)

lemma score_cpu3: "loadScore inst_cpu3 = 5404319552844596 / 4503599627370496"
  by (simp add: loadScore_def inst_cpu3_def toDouble_literals) (simp add: double_defs)

lemma score_mem4: "loadScore inst_mem4 = 5404319552844595 / 4503599627370496"
  by (simp add: loadScore_def inst_mem4_def toDouble_literals) (simp add: double_defs)

lemma score_hi: "loadScore inst_hi = 1126955438005289 / 35184372088832"
  by (simp add: loadScore_def inst_hi_def toDouble_literals) (simp add: double_defs)

lemma scan_cpu3_mem4:
  "getLeastLoadedInstance 10000 [inst_cpu3, inst_mem4] =
     Some (inst_mem4, 5404319552844595 / 4503599627370496)"
proof -
  have h: "getHealthyInstances 10000 [inst_cpu3, inst_mem4] = [inst_cpu3, inst_mem4]"
    by (simp add: getHealthyInstances_def inst_cpu3_def inst_mem4_def)
  show ?thesis
    by (simp add: getLeastLoadedInstance_def h score_cpu3 score_mem4)
qed

text \<open>
  Witness for C9: two healthy instances whose scores are equal in exact arithmetic. As
  computed in doubles the score of the second is the smaller one, and the second is the
  answer.
\<close>

theorem C9_least_loaded_first_minimum_witness:
  "(3 :: real) * 0.4 = 4 * 0.3 \<and>
   getLeastLoadedInstance 10000 [inst_cpu3, inst_mem4] =
     Some (inst_mem4, 5404319552844595 / 4503599627370496) \<and>
   loadScore inst_mem4 = 5404319552844595 / 4503599627370496 \<and>
   loadScore inst_mem4 < loadScore inst_cpu3 \<and>
   getHealthyInstances 10000 [inst_cpu3, inst_mem4] \<noteq> []"
proof -
  note th = C9_least_loaded_first_minimum [of 10000 "[inst_cpu3, inst_mem4]"]
  from th [THEN conjunct2, rule_format, OF scan_cpu3_mem4]
  have s: "loadScore inst_mem4 = 5404319552844595 / 4503599627370496" by simp
  from th [THEN conjunct1] scan_cpu3_mem4
  have h: "getHealthyInstances 10000 [inst_cpu3, inst_mem4] \<noteq> []" by simp
  have l: "loadScore inst_mem4 < loadScore inst_cpu3" by (simp add: score_cpu3 score_mem4)
  from scan_cpu3_mem4 s h l show ?thesis by simp
qed

text \<open>
  Counterexample to C9 as stated: two healthy instances with the same load figures have
  the same computed score; the one scanned first has the later heartbeat, and it is the
  one returned.
\<close>

theorem C9_heartbeat_ignored_counterexample:
  "loadScore inst_hi = loadScore inst_lo \<and> lastHeartbeat inst_lo < lastHeartbeat inst_hi \<and>
   getHealthyInstances 10000 [inst_hi, inst_lo] = [inst_hi, inst_lo] \<and>
   map_option fst (getLeastLoadedInstance 10000 [inst_hi, inst_lo]) = Some inst_hi"
proof -
  have e: "loadScore inst_hi = loadScore inst_lo"
    by (simp add: loadScore_def inst_hi_def inst_lo_def)
  have h: "getHealthyInstances 10000 [inst_hi, inst_lo] = [inst_hi, inst_lo]"
    by (simp add: getHealthyInstances_def inst_hi_def inst_lo_def)
  have "map_option fst (getLeastLoadedInstance 10000 [inst_hi, inst_lo]) = Some inst_hi"
    by (simp add: getLeastLoadedInstance_def h e)
  with e h show ?thesis by (simp add: inst_hi_def inst_lo_def)
qed

end
